theory Spec2Isabelle
  imports Main "HOL-Library.Sublist"
begin

section \<open>The external editor launcher of qutebrowser (misc/editor.py)\<close>

text \<open>
  The module holds one class, \<open>ExternalEditor\<close>. An instance writes a text into a
  temporary file (or takes an existing file), starts the configured editor on it and,
  when the editor process ends, reads the file back, emits \<open>editing_finished\<close> and
  removes the temporary file.

  Python strings are modelled as \<open>string\<close>, Python integers as \<open>int\<close>. The instance
  attributes are a record that every method takes and returns; the file system, the
  message sink and the signal are a second record, the world. A method returns an
  outcome (returned or raised), the instance and the world.
\<close>

subsection \<open>Strings: slicing, counting, searching, replacing, printing numbers\<close>

abbreviation LF :: char where
  "LF \<equiv> CHR 0x0A"

abbreviation CR :: char where
  "CR \<equiv> CHR 0x0D"

text \<open>\<open>xs[:k]\<close>: a negative bound counts from the end, and both clamp.\<close>

definition py_slice_to :: "'a list \<Rightarrow> int \<Rightarrow> 'a list" where
  "py_slice_to xs k =
     (if k < 0 then take (nat (int (length xs) + k)) xs else take (nat k) xs)"

text \<open>\<open>s.count(c)\<close> and \<open>s.rfind(c)\<close> for a one-character \<open>c\<close>.\<close>

definition py_count :: "string \<Rightarrow> char \<Rightarrow> int" where
  "py_count s c = int (length (filter (\<lambda>x. x = c) s))"

fun py_rfind :: "string \<Rightarrow> char \<Rightarrow> int" where
  "py_rfind [] c = - 1"
| "py_rfind (x # xs) c =
     (let r = py_rfind xs c in if 0 \<le> r then r + 1 else if x = c then 0 else - 1)"

text \<open>
  \<open>s.replace(old, new)\<close>: the occurrences of \<open>old\<close> are found from the left and do
  not overlap; an empty \<open>old\<close> matches before every character and at the end.
\<close>

function py_replace :: "string \<Rightarrow> string \<Rightarrow> string \<Rightarrow> string" where
  "py_replace old new [] = (if old = [] then new else [])"
| "py_replace old new (c # cs) =
     (if old = [] then new @ c # py_replace old new cs
      else if prefix old (c # cs) then new @ py_replace old new (drop (length old) (c # cs))
      else c # py_replace old new cs)"
  by pat_completeness auto
termination
  by (relation "measure (\<lambda>(old, new, s). length s)") auto

text \<open>\<open>str(i)\<close> of an integer: decimal digits, a minus sign when negative.\<close>

definition digit_chr :: "nat \<Rightarrow> char" where
  "digit_chr d = ''0123456789'' ! d"

fun digits_of :: "nat \<Rightarrow> string" where
  "digits_of n =
     (if n < 10 then [digit_chr n] else digits_of (n div 10) @ [digit_chr (n mod 10)])"

declare digits_of.simps [simp del]

definition py_str :: "int \<Rightarrow> string" where
  "py_str i = (if i < 0 then CHR ''-'' # digits_of (nat (- i)) else digits_of (nat i))"

subsection \<open>\<open>_sub_placeholder\<close> and the caret position\<close>

text \<open>
  \<open>_sub_placeholder\<close> chains six \<open>replace\<close> calls; the innermost call below is the
  first one of the source. \<open>self._filename\<close> is the first argument.
\<close>

definition sub_placeholder :: "string \<Rightarrow> string \<Rightarrow> int \<Rightarrow> int \<Rightarrow> string" where
  "sub_placeholder fname possible_placeholder line column =
     py_replace ''{column0}'' (py_str (column - 1))
       (py_replace ''{column}'' (py_str column)
         (py_replace ''{line0}'' (py_str (line - 1))
           (py_replace ''{line}'' (py_str line)
             (py_replace ''{file}'' fname
               (py_replace ''{}'' fname possible_placeholder)))))"

text \<open>
  The two expressions of \<open>edit\<close> for the caret:
  \<open>line = text[:caret_position].count('\n') + 1\<close> and
  \<open>column = caret_position - text[:caret_position].rfind('\n')\<close>.
\<close>

definition caret_line :: "string \<Rightarrow> int \<Rightarrow> int" where
  "caret_line txt caret_position = py_count (py_slice_to txt caret_position) LF + 1"

definition caret_column :: "string \<Rightarrow> int \<Rightarrow> int" where
  "caret_column txt caret_position =
     caret_position - py_rfind (py_slice_to txt caret_position) LF"

subsection \<open>What the specification says about the caret and the placeholders\<close>

text \<open>
  The specification's words for the caret, over indices: the number of newline
  characters strictly before position \<open>n\<close>, and the index \<open>j\<close> of the last newline
  before position \<open>n\<close>, which is \<open>-1\<close> when there is none.
\<close>

definition newlines_before :: "string \<Rightarrow> nat \<Rightarrow> nat" where
  "newlines_before txt n = card {i. i < n \<and> i < length txt \<and> txt ! i = LF}"

definition last_newline_before :: "string \<Rightarrow> nat \<Rightarrow> int \<Rightarrow> bool" where
  "last_newline_before txt n j =
     (if \<exists>i. i < n \<and> i < length txt \<and> txt ! i = LF
      then 0 \<le> j \<and> nat j < n \<and> nat j < length txt \<and> txt ! nat j = LF \<and>
           (\<forall>k. nat j < k \<and> k < n \<and> k < length txt \<longrightarrow> txt ! k \<noteq> LF)
      else j = - 1)"

text \<open>
  The six placeholders with their tokens and replacements, and the substitution done
  in an arbitrary order of the placeholders; \<open>source_order\<close> is the order of
  \<open>_sub_placeholder\<close>.
\<close>

datatype placeholder = PhBraces | PhFile | PhLine | PhLine0 | PhColumn | PhColumn0

fun token :: "placeholder \<Rightarrow> string" where
  "token PhBraces = ''{}''"
| "token PhFile = ''{file}''"
| "token PhLine = ''{line}''"
| "token PhLine0 = ''{line0}''"
| "token PhColumn = ''{column}''"
| "token PhColumn0 = ''{column0}''"

fun replacement :: "string \<Rightarrow> int \<Rightarrow> int \<Rightarrow> placeholder \<Rightarrow> string" where
  "replacement fname line column PhBraces = fname"
| "replacement fname line column PhFile = fname"
| "replacement fname line column PhLine = py_str line"
| "replacement fname line column PhLine0 = py_str (line - 1)"
| "replacement fname line column PhColumn = py_str column"
| "replacement fname line column PhColumn0 = py_str (column - 1)"

definition sub_in_order ::
  "placeholder list \<Rightarrow> string \<Rightarrow> string \<Rightarrow> int \<Rightarrow> int \<Rightarrow> string" where
  "sub_in_order ps fname arg line column =
     foldl (\<lambda>s p. py_replace (token p) (replacement fname line column p) s) arg ps"

definition source_order :: "placeholder list" where
  "source_order = [PhBraces, PhFile, PhLine, PhLine0, PhColumn, PhColumn0]"

text \<open>
  An argument template written as pieces: literal text and placeholders.
  \<open>render\<close> is the template as the configuration holds it, \<open>filled\<close> is the template
  with every placeholder piece replaced by its value, and \<open>plain_literals\<close> says that
  no literal piece holds an opening brace.
\<close>

datatype segment = Lit string | Ph placeholder

fun render :: "segment list \<Rightarrow> string" where
  "render [] = []"
| "render (Lit l # segs) = l @ render segs"
| "render (Ph p # segs) = token p @ render segs"

fun filled :: "string \<Rightarrow> int \<Rightarrow> int \<Rightarrow> segment list \<Rightarrow> string" where
  "filled fname line column [] = []"
| "filled fname line column (Lit l # segs) = l @ filled fname line column segs"
| "filled fname line column (Ph p # segs) =
     replacement fname line column p @ filled fname line column segs"

fun plain_literals :: "segment list \<Rightarrow> bool" where
  "plain_literals [] = True"
| "plain_literals (Lit l # segs) = (CHR ''{'' \<notin> set l \<and> plain_literals segs)"
| "plain_literals (Ph p # segs) = plain_literals segs"

fun fill_one :: "placeholder \<Rightarrow> string \<Rightarrow> segment \<Rightarrow> segment" where
  "fill_one p v (Lit l) = Lit l"
| "fill_one p v (Ph q) = (if q = p then Lit v else Ph q)"

fun fill_all :: "string \<Rightarrow> int \<Rightarrow> int \<Rightarrow> placeholder set \<Rightarrow> segment \<Rightarrow> segment" where
  "fill_all fname line column A (Lit l) = Lit l"
| "fill_all fname line column A (Ph q) =
     (if q \<in> A then Lit (replacement fname line column q) else Ph q)"

subsection \<open>The instance, its collaborators and the world\<close>

text \<open>
  \<open>QProcess.ExitStatus\<close> and \<open>QProcess.ProcessError\<close>, the exceptions that can leave a
  method, and the two ways a method ends. Every \<open>OSError\<close> is caught inside the
  methods, so it is not among the exceptions that escape.
\<close>

datatype exit_status = NormalExit | CrashExit

datatype process_error = FailedToStart | Crashed | Timedout | WriteError | ReadError | UnknownError

datatype py_error =
    ValueError string
  | AssertionError
  | IndexError
  | TypeError
  | AttributeError
  | UnicodeEncodeError
  | UnicodeDecodeError

datatype outcome = Returned | Raised py_error

text \<open>
  The configuration values the module reads are parameters: \<open>editor.command\<close> (the
  executable followed by the argument templates) and \<open>editor.encoding\<close>, a codec
  whose two directions fail with \<open>None\<close> where Python raises a Unicode error.
\<close>

record codec =
  encode :: "string \<Rightarrow> string option"
  decode :: "string \<Rightarrow> string option"

record config =
  editor_command :: "string list"
  editor_encoding :: codec

text \<open>
  Modelled from the spec: the process wrapper \<open>guiprocess.GUIProcess\<close> is not part of
  the sources. The specification gives it \<open>start(executable, args)\<close>, a completion
  notification carrying an exit code and an exit status, an error notification, and an
  \<open>exitStatus()\<close> accessor usable during cleanup. The handle records what \<open>start\<close> was
  given and the exit status the accessor returns (that of a process that has not ended
  is \<open>NormalExit\<close>, as for \<open>QProcess\<close>).
\<close>

record gui_process =
  invocation :: "(string \<times> string list) option"
  exit_status :: exit_status

text \<open>The attributes \<open>_filename\<close>, \<open>_proc\<close> and \<open>_remove_file\<close>; \<open>None\<close> is Python's.\<close>

record external_editor =
  filename :: "string option"
  proc :: "gui_process option"
  remove_file :: "bool option"

text \<open>
  The world: the files on disk (path to stored bytes), the platform (it fixes
  \<open>os.linesep\<close>), the directory of the temporary files, the random part of the first
  candidate name and those of the further candidates,
  the operations the operating system refuses (with the text of the \<open>OSError\<close>), the
  file operations made so far, the errors shown by \<open>message.error\<close> and the texts
  emitted on \<open>editing_finished\<close>.
\<close>

datatype platform = Posix | Windows

datatype fs_op = OpMkstemp | OpWrite string | OpClose string | OpRead string | OpRemove string

record world =
  files :: "string \<rightharpoonup> string"
  os_platform :: platform
  tmp_dir :: string
  tmp_random :: string
  tmp_retries :: "string list"
  os_fault :: "fs_op \<Rightarrow> string option"
  fs_trace :: "fs_op list"
  messages :: "string list"
  emitted :: "string list"

type_synonym run = "outcome \<times> external_editor \<times> world"

definition outcome_of :: "run \<Rightarrow> outcome" where
  "outcome_of r = fst r"

definition editor_of :: "run \<Rightarrow> external_editor" where
  "editor_of r = fst (snd r)"

definition world_of :: "run \<Rightarrow> world" where
  "world_of r = snd (snd r)"

text \<open>\<open>__init__\<close>.\<close>

definition init_editor :: external_editor where
  "init_editor = \<lparr>filename = None, proc = None, remove_file = None\<rparr>"

definition message_error :: "string \<Rightarrow> world \<Rightarrow> world" where
  "message_error m w = w\<lparr>messages := messages w @ [m]\<rparr>"

definition editing_finished_emit :: "string \<Rightarrow> world \<Rightarrow> world" where
  "editing_finished_emit t w = w\<lparr>emitted := emitted w @ [t]\<rparr>"

definition syscall :: "fs_op \<Rightarrow> world \<Rightarrow> world" where
  "syscall op w = w\<lparr>fs_trace := fs_trace w @ [op]\<rparr>"

subsection \<open>Text files\<close>

text \<open>
  Both the temporary file (\<open>mode='w'\<close>) and the read-back (\<open>open(..., 'r')\<close>) are text
  files opened with the default \<open>newline=None\<close>: on writing every \<open>'\n'\<close> becomes
  \<open>os.linesep\<close>, on reading \<open>'\r\n'\<close> and a lone \<open>'\r'\<close> become \<open>'\n'\<close>.
\<close>

definition os_linesep :: "platform \<Rightarrow> string" where
  "os_linesep pf = (case pf of Posix \<Rightarrow> [LF] | Windows \<Rightarrow> [CR, LF])"

definition translate_out :: "platform \<Rightarrow> string \<Rightarrow> string" where
  "translate_out pf s = concat (map (\<lambda>c. if c = LF then os_linesep pf else [c]) s)"

fun universal_newlines :: "string \<Rightarrow> string" where
  "universal_newlines [] = []"
| "universal_newlines [c] = (if c = CR then [LF] else [c])"
| "universal_newlines (c # d # ds) =
     (if c = CR \<and> d = LF then LF # universal_newlines ds
      else if c = CR then LF # universal_newlines (d # ds)
      else c # universal_newlines (d # ds))"

text \<open>
  \<open>NamedTemporaryFile(mode='w', prefix='qutebrowser-editor-', delete=False)\<close> tries the
  candidate names in turn and creates, empty, the first one that does not exist; it
  fails when every candidate exists. \<open>tmp_name\<close> is the name it chooses (the first
  candidate when all are taken, which then exists).
\<close>

definition candidate_names :: "world \<Rightarrow> string list" where
  "candidate_names w =
     map (\<lambda>r. tmp_dir w @ ''/qutebrowser-editor-'' @ r) (tmp_random w # tmp_retries w)"

definition tmp_name :: "world \<Rightarrow> string" where
  "tmp_name w =
     (case find (\<lambda>name. files w name = None) (candidate_names w) of
        Some name \<Rightarrow> name
      | None \<Rightarrow> hd (candidate_names w))"

definition mkstemp :: "world \<Rightarrow> (string + string) \<times> world" where
  "mkstemp w =
     (case os_fault w OpMkstemp of
        Some e \<Rightarrow> (Inl e, syscall OpMkstemp w)
      | None \<Rightarrow>
          if files w (tmp_name w) \<noteq> None
          then (Inl ''No usable temporary file name found'', syscall OpMkstemp w)
          else (Inr (tmp_name w),
                (syscall OpMkstemp w)\<lparr>files := (files w)(tmp_name w \<mapsto> [])\<rparr>))"

text \<open>
  A text file keeps what is written in a buffer: \<open>write\<close> encodes the text (a Unicode
  error is raised there) and hands the bytes to the operating system only when there
  are at least \<open>io_buffer_size\<close> of them; fewer bytes stay pending, the second component
  of the result. Closing the file first writes the pending bytes, where the operating
  system can refuse the write, and then closes the file, also after a refused write.
\<close>

definition io_buffer_size :: nat where
  "io_buffer_size = 8192"

datatype write_result = WriteOk | WriteOSError string | WriteEncodeError

definition file_write ::
  "config \<Rightarrow> string \<Rightarrow> string \<Rightarrow> world \<Rightarrow> write_result \<times> string \<times> world" where
  "file_write cfg name s w =
     (case encode (editor_encoding cfg) (translate_out (os_platform w) s) of
        None \<Rightarrow> (WriteEncodeError, [], w)
      | Some bytes \<Rightarrow>
          if length bytes < io_buffer_size then (WriteOk, bytes, w)
          else
            (case os_fault w (OpWrite name) of
               Some e \<Rightarrow> (WriteOSError e, [], syscall (OpWrite name) w)
             | None \<Rightarrow>
                 (WriteOk, [],
                  (syscall (OpWrite name) w)\<lparr>files := (files w)(name \<mapsto> bytes)\<rparr>)))"

definition file_close :: "string \<Rightarrow> string \<Rightarrow> world \<Rightarrow> string option \<times> world" where
  "file_close name pending w =
     (if pending = [] then (os_fault w (OpClose name), syscall (OpClose name) w)
      else
        (case os_fault w (OpWrite name) of
           Some e \<Rightarrow> (Some e, syscall (OpClose name) (syscall (OpWrite name) w))
         | None \<Rightarrow>
             (os_fault w (OpClose name),
              syscall (OpClose name)
                ((syscall (OpWrite name) w)\<lparr>files := (files w)(name \<mapsto> pending)\<rparr>))))"

text \<open>
  The \<open>with\<close> block of \<open>edit\<close>: the text is written only when it is not empty, the
  name is stored in \<open>_filename\<close> after the write, and the file is closed on every way
  out of the block (an error of the close replaces the one under way). An error of the
  close after a write that went well comes when \<open>_filename\<close> is already set.
\<close>

datatype tmp_result = TmpDone | TmpOSError string | TmpRaised py_error

definition write_initial_file ::
  "config \<Rightarrow> string \<Rightarrow> external_editor \<times> world \<Rightarrow> tmp_result \<times> external_editor \<times> world" where
  "write_initial_file cfg txt sw =
     (case sw of (s, w) \<Rightarrow>
       (case mkstemp w of
          (Inl e, w1) \<Rightarrow> (TmpOSError e, s, w1)
        | (Inr name, w1) \<Rightarrow>
            (case (if txt \<noteq> [] then file_write cfg name txt w1 else (WriteOk, [], w1)) of
               (WriteOSError e, pending, w2) \<Rightarrow>
                 (case file_close name pending w2 of
                    (Some e', w3) \<Rightarrow> (TmpOSError e', s, w3)
                  | (None, w3) \<Rightarrow> (TmpOSError e, s, w3))
             | (WriteEncodeError, pending, w2) \<Rightarrow>
                 (case file_close name pending w2 of
                    (Some e', w3) \<Rightarrow> (TmpOSError e', s, w3)
                  | (None, w3) \<Rightarrow> (TmpRaised UnicodeEncodeError, s, w3))
             | (WriteOk, pending, w2) \<Rightarrow>
                 (case file_close name pending w2 of
                    (Some e', w3) \<Rightarrow> (TmpOSError e', s\<lparr>filename := Some name\<rparr>, w3)
                  | (None, w3) \<Rightarrow> (TmpDone, s\<lparr>filename := Some name\<rparr>, w3)))))"

text \<open>
  \<open>os.remove\<close> and the read-back \<open>open(self._filename, 'r', encoding=...)\<close> with
  \<open>f.read()\<close>: a missing file is an \<open>OSError\<close>, as is a refusal of the operating
  system; \<open>open(None)\<close> is a \<open>TypeError\<close>.
\<close>

definition os_remove :: "string \<Rightarrow> world \<Rightarrow> string option \<times> world" where
  "os_remove name w =
     (case os_fault w (OpRemove name) of
        Some e \<Rightarrow> (Some e, syscall (OpRemove name) w)
      | None \<Rightarrow>
          if files w name = None
          then (Some ''No such file or directory'', syscall (OpRemove name) w)
          else (None, (syscall (OpRemove name) w)\<lparr>files := (files w)(name := None)\<rparr>))"

datatype read_result = ReadOk string | ReadOSError string | ReadRaised py_error

definition read_back :: "config \<Rightarrow> string option \<Rightarrow> world \<Rightarrow> read_result \<times> world" where
  "read_back cfg fname w =
     (case fname of
        None \<Rightarrow> (ReadRaised TypeError, w)
      | Some name \<Rightarrow>
          (case os_fault w (OpRead name) of
             Some e \<Rightarrow> (ReadOSError e, syscall (OpRead name) w)
           | None \<Rightarrow>
               (case files w name of
                  None \<Rightarrow> (ReadOSError ''No such file or directory'', syscall (OpRead name) w)
                | Some bytes \<Rightarrow>
                    (case decode (editor_encoding cfg) bytes of
                       None \<Rightarrow> (ReadRaised UnicodeDecodeError, syscall (OpRead name) w)
                     | Some s \<Rightarrow> (ReadOk (universal_newlines s), syscall (OpRead name) w)))))"

subsection \<open>The methods of \<open>ExternalEditor\<close>\<close>

text \<open>
  \<open>_start_editor\<close>: a new process handle replaces \<open>_proc\<close>, then \<open>editor[0]\<close> raises
  \<open>IndexError\<close> on an empty command and \<open>replace\<close> raises \<open>TypeError\<close> when
  \<open>_filename\<close> is \<open>None\<close> and there is a template to fill.
\<close>

definition start_editor :: "config \<Rightarrow> int \<Rightarrow> int \<Rightarrow> external_editor \<times> world \<Rightarrow> run" where
  "start_editor cfg line column sw =
     (case sw of (s, w) \<Rightarrow>
       (let s1 = s\<lparr>proc := Some \<lparr>invocation = None, exit_status = NormalExit\<rparr>\<rparr> in
        case editor_command cfg of
          [] \<Rightarrow> (Raised IndexError, s1, w)
        | executable # templates \<Rightarrow>
            (case filename s1 of
               None \<Rightarrow>
                 if templates = []
                 then (Returned,
                       s1\<lparr>proc := Some \<lparr>invocation = Some (executable, []),
                                         exit_status = NormalExit\<rparr>\<rparr>, w)
                 else (Raised TypeError, s1, w)
             | Some fname \<Rightarrow>
                 (Returned,
                  s1\<lparr>proc := Some \<lparr>invocation =
                                      Some (executable,
                                            map (\<lambda>arg. sub_placeholder fname arg line column)
                                              templates),
                                    exit_status = NormalExit\<rparr>\<rparr>, w))))"

definition edit :: "config \<Rightarrow> string \<Rightarrow> int \<Rightarrow> external_editor \<times> world \<Rightarrow> run" where
  "edit cfg txt caret_position sw =
     (case sw of (s, w) \<Rightarrow>
       if filename s \<noteq> None then (Raised (ValueError ''Already editing a file!''), s, w)
       else
         (case write_initial_file cfg txt (s, w) of
            (TmpOSError e, s1, w1) \<Rightarrow>
              (Returned, s1, message_error (''Failed to create initial file: '' @ e) w1)
          | (TmpRaised x, s1, w1) \<Rightarrow> (Raised x, s1, w1)
          | (TmpDone, s1, w1) \<Rightarrow>
              start_editor cfg (caret_line txt caret_position) (caret_column txt caret_position)
                (s1\<lparr>remove_file := Some True\<rparr>, w1)))"

definition edit_file :: "config \<Rightarrow> string \<Rightarrow> external_editor \<times> world \<Rightarrow> run" where
  "edit_file cfg fname sw =
     (case sw of (s, w) \<Rightarrow>
        start_editor cfg 1 1 (s\<lparr>filename := Some fname, remove_file := Some False\<rparr>, w))"

text \<open>
  \<open>_cleanup\<close>: the assertion comes first; \<open>self._proc.exit_status()\<close> on a missing
  handle is an \<open>AttributeError\<close>; an \<open>OSError\<close> of the removal is shown, not raised.
\<close>

definition cleanup :: "external_editor \<times> world \<Rightarrow> run" where
  "cleanup sw =
     (case sw of (s, w) \<Rightarrow>
       if remove_file s = None then (Raised AssertionError, s, w)
       else if filename s = None \<or> remove_file s \<noteq> Some True then (Returned, s, w)
       else
         (case proc s of
            None \<Rightarrow> (Raised AttributeError, s, w)
          | Some p \<Rightarrow>
              if exit_status p \<noteq> CrashExit
              then (case os_remove (the (filename s)) w of
                      (Some e, w1) \<Rightarrow>
                        (Returned, s,
                         message_error (''Failed to delete tempfile... ('' @ e @ '')'') w1)
                    | (None, w1) \<Rightarrow> (Returned, s, w1))
              else (Returned, s, w)))"

text \<open>
  The \<open>finally\<close> clause of \<open>on_proc_closed\<close>: the cleanup runs whatever the \<open>try\<close>
  block did, and an exception of the cleanup replaces the outcome of the block.
\<close>

definition finally_cleanup :: "outcome \<Rightarrow> external_editor \<times> world \<Rightarrow> run" where
  "finally_cleanup r sw =
     (case cleanup sw of
        (Raised x, s1, w1) \<Rightarrow> (Raised x, s1, w1)
      | (Returned, s1, w1) \<Rightarrow> (r, s1, w1))"

definition on_proc_closed ::
  "config \<Rightarrow> int \<Rightarrow> exit_status \<Rightarrow> external_editor \<times> world \<Rightarrow> run" where
  "on_proc_closed cfg exitcode exitstatus sw =
     (case sw of (s, w) \<Rightarrow>
       if exitstatus \<noteq> NormalExit then (Returned, s, w)
       else if exitcode \<noteq> 0 then finally_cleanup Returned (s, w)
       else
         (case read_back cfg (filename s) w of
            (ReadOSError e, w1) \<Rightarrow>
              finally_cleanup Returned
                (s, message_error (''Failed to read back edited file: '' @ e) w1)
          | (ReadRaised x, w1) \<Rightarrow> finally_cleanup (Raised x) (s, w1)
          | (ReadOk t, w1) \<Rightarrow> finally_cleanup Returned (s, editing_finished_emit t w1)))"

definition on_proc_error :: "process_error \<Rightarrow> external_editor \<times> world \<Rightarrow> run" where
  "on_proc_error err sw = cleanup sw"

text \<open>
  Modelled from the spec: how the process wrapper notifies the instance is not part of
  the sources. The specification names the ends of a cycle: a normal exit with an exit
  code, a crash (the error notification handles the cleanup, then the completion
  notification arrives with the crash status) and a start error (the error notification
  alone). The wrapper's exit status is the one its accessor returns during cleanup.
\<close>

definition set_exit_status :: "exit_status \<Rightarrow> external_editor \<Rightarrow> external_editor" where
  "set_exit_status st s = s\<lparr>proc := map_option (\<lambda>p. p\<lparr>exit_status := st\<rparr>) (proc s)\<rparr>"

datatype cycle_end = ExitedNormally int | CrashedWith int | FailedStart

definition process_ended :: "config \<Rightarrow> cycle_end \<Rightarrow> external_editor \<times> world \<Rightarrow> run" where
  "process_ended cfg ev sw =
     (case sw of (s, w) \<Rightarrow>
       (case ev of
          ExitedNormally code \<Rightarrow>
            on_proc_closed cfg code NormalExit (set_exit_status NormalExit s, w)
        | CrashedWith code \<Rightarrow>
            (case on_proc_error Crashed (set_exit_status CrashExit s, w) of
               (Raised x, s1, w1) \<Rightarrow> (Raised x, s1, w1)
             | (Returned, s1, w1) \<Rightarrow> on_proc_closed cfg code CrashExit (s1, w1))
        | FailedStart \<Rightarrow> on_proc_error FailedToStart (set_exit_status NormalExit s, w)))"

subsection \<open>Concrete collaborators for the examples\<close>

text \<open>
  A one-byte codec that maps every character to itself, the editor command that
  qutebrowser ships as its default, and a world with an empty disk in which no
  operation is refused.
\<close>

definition latin1 :: codec where
  "latin1 = \<lparr>encode = Some, decode = Some\<rparr>"

definition default_config :: config where
  "default_config =
     \<lparr>editor_command = [''gvim'', ''-f'', ''{file}'', ''-c'', ''normal {line}G{column0}l''],
      editor_encoding = latin1\<rparr>"

definition quiet_world :: world where
  "quiet_world =
     \<lparr>files = Map.empty, os_platform = Posix, tmp_dir = ''/tmp'', tmp_random = ''a1b2c3'',
      tmp_retries = [''d4e5f6''], os_fault = (\<lambda>op. None), fs_trace = [], messages = [], emitted = []\<rparr>"

text \<open>
  The removals made so far, read off the file operations, and what it means for the
  configured codec to give a text back: the bytes on disk decode to the written
  characters (an empty text is never written, so the empty file must decode to it).
\<close>

fun removed_path :: "fs_op \<Rightarrow> string list" where
  "removed_path (OpRemove name) = [name]"
| "removed_path op = []"

definition removals :: "world \<Rightarrow> string list" where
  "removals w = concat (map removed_path (fs_trace w))"

definition codec_round_trips :: "codec \<Rightarrow> platform \<Rightarrow> string \<Rightarrow> bool" where
  "codec_round_trips cdc pf txt =
     (if txt = [] then decode cdc [] = Some []
      else (case encode cdc (translate_out pf txt) of
              None \<Rightarrow> False
            | Some bytes \<Rightarrow> decode cdc bytes = Some (translate_out pf txt)))"

text \<open>
  Two worlds in which the operating system refuses an operation (the temporary file
  cannot be created; the disk is full when the text is written), and the state after
  \<open>edit\<close> has started the editor on the text \<open>"draft"\<close> in the quiet world.
\<close>

definition no_tmp_world :: world where
  "no_tmp_world =
     quiet_world\<lparr>os_fault :=
       (\<lambda>op. case op of OpMkstemp \<Rightarrow> Some ''No such file or directory'' | _ \<Rightarrow> None)\<rparr>"

definition full_disk_world :: world where
  "full_disk_world =
     quiet_world\<lparr>os_fault :=
       (\<lambda>op. case op of OpWrite name \<Rightarrow> Some ''No space left on device'' | _ \<Rightarrow> None)\<rparr>"

definition busy_run :: run where
  "busy_run = edit default_config ''draft'' 0 (init_editor, quiet_world)"

text \<open>
  The two runs of \<open>edit\<close> on the text \<open>"draft"\<close>, from the initial state, in which the
  initial file fails: with a full disk, and where the temporary file cannot be created.
\<close>

definition failed_write_run :: run where
  "failed_write_run = edit default_config ''draft'' 0 (init_editor, full_disk_world)"

definition failed_creation_run :: run where
  "failed_creation_run = edit default_config ''draft'' 0 (init_editor, no_tmp_world)"

section \<open>Facts about the model\<close>

lemmas model_defs =
  edit_def edit_file_def write_initial_file_def mkstemp_def file_write_def file_close_def
  start_editor_def cleanup_def os_remove_def read_back_def finally_cleanup_def
  on_proc_closed_def on_proc_error_def set_exit_status_def process_ended_def
  message_error_def editing_finished_emit_def syscall_def tmp_name_def candidate_names_def
  io_buffer_size_def
  outcome_of_def editor_of_def world_of_def init_editor_def

lemmas example_defs = latin1_def default_config_def quiet_world_def

lemmas eval_defs = model_defs example_defs translate_out_def os_linesep_def caret_line_def
  caret_column_def py_slice_to_def py_count_def sub_placeholder_def py_str_def digits_of.simps
  digit_chr_def

subsection \<open>Searching and counting\<close>

lemma py_rfind_lower: "- 1 \<le> py_rfind xs c"
  by (induction xs) (auto simp: Let_def)

lemma py_rfind_upper: "py_rfind xs c < int (length xs)"
  by (induction xs) (auto simp: Let_def)

lemma py_rfind_none: "(py_rfind xs c < 0) = (c \<notin> set xs)"
proof (induction xs)
  case Nil
  show ?case by simp
next
  case (Cons x xs)
  have "- 1 \<le> py_rfind xs c" by (rule py_rfind_lower)
  with Cons show ?case by (auto simp: Let_def)
qed

lemma py_rfind_hit:
  "0 \<le> py_rfind xs c \<Longrightarrow>
     xs ! nat (py_rfind xs c) = c \<and>
     (\<forall>k. nat (py_rfind xs c) < k \<and> k < length xs \<longrightarrow> xs ! k \<noteq> c)"
proof (induction xs)
  case Nil
  then show ?case by simp
next
  case (Cons x xs)
  show ?case
  proof (cases "0 \<le> py_rfind xs c")
    case True
    then have r: "py_rfind (x # xs) c = py_rfind xs c + 1" by (simp add: Let_def)
    from True have n: "nat (py_rfind xs c + 1) = Suc (nat (py_rfind xs c))" by simp
    from Cons.IH [OF True] show ?thesis
      unfolding r n by (auto simp: nth_Cons split: nat.splits)
  next
    case False
    then have notin: "c \<notin> set xs" using py_rfind_none [of xs c] by simp
    from False Cons.prems have xc: "x = c" and r: "py_rfind (x # xs) c = 0"
      by (auto simp: Let_def split: if_splits)
    show ?thesis unfolding r using xc notin by (auto simp: nth_Cons split: nat.splits)
  qed
qed

lemma py_count_take:
  "py_count (take n txt) LF = int (newlines_before txt n)"
proof -
  have "{i. i < length (take n txt) \<and> take n txt ! i = LF} =
        {i. i < n \<and> i < length txt \<and> txt ! i = LF}"
    by auto
  then show ?thesis
    by (simp add: py_count_def newlines_before_def length_filter_conv_card)
qed

lemma py_rfind_take_last:
  "last_newline_before txt n (py_rfind (take n txt) LF)"
proof (cases "0 \<le> py_rfind (take n txt) LF")
  case True
  let ?r = "py_rfind (take n txt) LF"
  from py_rfind_upper [of "take n txt" LF] True
  have lt: "nat ?r < length (take n txt)" by (simp only: nat_less_iff [OF True])
  from py_rfind_hit [OF True]
  have hit: "take n txt ! nat ?r = LF"
    and after: "\<forall>k. nat ?r < k \<and> k < length (take n txt) \<longrightarrow> take n txt ! k \<noteq> LF"
    by simp_all
  from lt hit have ex: "\<exists>i. i < n \<and> i < length txt \<and> txt ! i = LF"
    by (intro exI [of _ "nat ?r"]) simp
  from after have after': "\<forall>k. nat ?r < k \<and> k < n \<and> k < length txt \<longrightarrow> txt ! k \<noteq> LF"
    by simp
  from True lt hit ex after' show ?thesis
    unfolding last_newline_before_def by simp
next
  case False
  then have "LF \<notin> set (take n txt)" using py_rfind_none [of "take n txt" LF] by simp
  then have no: "\<not> (\<exists>i. i < n \<and> i < length txt \<and> txt ! i = LF)"
    by (auto simp: in_set_conv_nth)
  from False py_rfind_lower [of "take n txt" LF] have "py_rfind (take n txt) LF = - 1" by simp
  with no show ?thesis unfolding last_newline_before_def by simp
qed

lemma caret_general:
  assumes "0 \<le> p" "p \<le> int (length txt)"
  shows "caret_line txt p = int (newlines_before txt (nat p)) + 1"
    and "last_newline_before txt (nat p) (p - caret_column txt p)"
    and "1 \<le> caret_line txt p" and "1 \<le> caret_column txt p"
proof -
  from assms have sl: "py_slice_to txt p = take (nat p) txt" by (simp add: py_slice_to_def)
  show "caret_line txt p = int (newlines_before txt (nat p)) + 1"
    by (simp add: caret_line_def sl py_count_take)
  then show "1 \<le> caret_line txt p" by simp
  show "last_newline_before txt (nat p) (p - caret_column txt p)"
    by (simp add: caret_column_def sl py_rfind_take_last)
  from py_rfind_upper [of "take (nat p) txt" LF] assms
  show "1 \<le> caret_column txt p" by (simp add: caret_column_def sl)
qed

lemma caret_example:
  "caret_line (''aaa'' @ LF # ''bbbbb'') 6 = 2 \<and> caret_column (''aaa'' @ LF # ''bbbbb'') 6 = 3"
  by (simp add: caret_line_def caret_column_def py_slice_to_def py_count_def)

lemma caret_beyond:
  assumes "int (length txt) < p"
  shows "caret_line txt p = caret_line txt (int (length txt))"
    and "caret_column txt p = p - py_rfind txt LF"
    and "caret_column txt p = caret_column txt (int (length txt)) + (p - int (length txt))"
  using assms by (simp_all add: caret_line_def caret_column_def py_slice_to_def)

subsection \<open>Replacing\<close>

lemma sub_placeholder_in_order:
  "sub_placeholder fname arg line column = sub_in_order source_order fname arg line column"
  by (simp add: sub_placeholder_def sub_in_order_def source_order_def)

lemma py_replace_absent:
  "\<not> sublist old s \<Longrightarrow> py_replace old new s = s"
proof (induction s)
  case Nil
  then show ?case by auto
next
  case (Cons c cs)
  from Cons.prems have ne: "old \<noteq> []" by auto
  from Cons.prems have np: "\<not> prefix old (c # cs)" by (auto simp: sublist_Cons_right)
  from Cons.prems have "\<not> sublist old cs" by (auto simp: sublist_Cons_right)
  with Cons.IH ne np show ?case by simp
qed

lemma py_replace_skip:
  "CHR ''{'' \<notin> set l \<Longrightarrow> py_replace (CHR ''{'' # t) new (l @ s) = l @ py_replace (CHR ''{'' # t) new s"
  by (induction l) auto

lemma py_replace_here:
  "old \<noteq> [] \<Longrightarrow> py_replace old new (old @ s) = new @ py_replace old new s"
  by (cases old) auto

lemma token_brace: "\<exists>t. token p = CHR ''{'' # t"
  by (cases p) simp_all

lemma py_replace_other_token:
  "p \<noteq> q \<Longrightarrow> py_replace (token p) new (token q @ s) = token q @ py_replace (token p) new s"
  by (cases p; cases q) simp_all

lemma py_replace_render:
  "plain_literals segs \<Longrightarrow>
     py_replace (token p) v (render segs) = render (map (fill_one p v) segs)"
proof (induction segs rule: render.induct)
  case 1
  show ?case by (cases p) simp_all
next
  case (2 l segs)
  obtain t where t: "token p = CHR ''{'' # t" using token_brace by blast
  from 2 show ?case by (simp add: t py_replace_skip)
next
  case (3 q segs)
  show ?case
  proof (cases "q = p")
    case True
    have "token p \<noteq> []" by (cases p) simp_all
    with 3 True show ?thesis by (simp add: py_replace_here)
  next
    case False
    then have "p \<noteq> q" by simp
    with 3 False show ?thesis by (simp add: py_replace_other_token)
  qed
qed

lemma plain_literals_fill:
  "plain_literals segs \<Longrightarrow> CHR ''{'' \<notin> set v \<Longrightarrow> plain_literals (map (fill_one p v) segs)"
  by (induction segs rule: render.induct) auto

lemma digit_chr_no_brace: "d < 10 \<Longrightarrow> digit_chr d \<noteq> CHR ''{''"
proof -
  assume "d < 10"
  then have "digit_chr d \<in> set ''0123456789''"
    unfolding digit_chr_def by (intro nth_mem) simp
  then show ?thesis by auto
qed

lemma digits_of_no_brace: "CHR ''{'' \<notin> set (digits_of n)"
proof (induction n rule: digits_of.induct)
  case (1 n)
  show ?case
  proof (cases "n < 10")
    case True
    then show ?thesis using digit_chr_no_brace [of n] by (simp add: digits_of.simps [of n])
  next
    case False
    have "n mod 10 < 10" by simp
    then have "digit_chr (n mod 10) \<noteq> CHR ''{''" by (rule digit_chr_no_brace)
    with False 1 show ?thesis by (simp add: digits_of.simps [of n])
  qed
qed

lemma py_str_no_brace: "CHR ''{'' \<notin> set (py_str i)"
  by (simp add: py_str_def digits_of_no_brace)

lemma replacement_no_brace:
  "CHR ''{'' \<notin> set fname \<Longrightarrow> CHR ''{'' \<notin> set (replacement fname line column p)"
  by (cases p) (simp_all add: py_str_no_brace)

lemma fill_all_empty: "map (fill_all fname line column {}) segs = segs"
  by (induction segs rule: render.induct) auto

lemma fill_all_insert:
  "fill_all fname line column A (fill_one p (replacement fname line column p) seg) =
   fill_all fname line column (insert p A) seg"
  by (cases seg) auto

lemma sub_in_order_render:
  "plain_literals segs \<Longrightarrow> CHR ''{'' \<notin> set fname \<Longrightarrow>
     sub_in_order ps fname (render segs) line column =
     render (map (fill_all fname line column (set ps)) segs)"
proof (induction ps arbitrary: segs)
  case Nil
  show ?case by (simp add: sub_in_order_def fill_all_empty)
next
  case (Cons p ps)
  let ?v = "replacement fname line column p"
  let ?segs = "map (fill_one p ?v) segs"
  have pl: "plain_literals ?segs"
    using Cons.prems by (simp add: plain_literals_fill replacement_no_brace)
  have "sub_in_order (p # ps) fname (render segs) line column =
        sub_in_order ps fname (py_replace (token p) ?v (render segs)) line column"
    by (simp add: sub_in_order_def)
  also have "\<dots> = sub_in_order ps fname (render ?segs) line column"
    using Cons.prems by (simp add: py_replace_render)
  also have "\<dots> = render (map (fill_all fname line column (set ps)) ?segs)"
    by (rule Cons.IH [OF pl Cons.prems(2)])
  also have "\<dots> = render (map (fill_all fname line column (set (p # ps))) segs)"
    by (simp add: fill_all_insert comp_def)
  finally show ?case .
qed

lemma render_fill_all_UNIV:
  "render (map (fill_all fname line column UNIV) segs) = filled fname line column segs"
  by (induction segs rule: render.induct) auto

lemma source_order_all: "set source_order = UNIV"
proof -
  have "p \<in> set source_order" for p by (cases p) (simp_all add: source_order_def)
  then show ?thesis by auto
qed

lemma sub_any_order:
  assumes "plain_literals segs" "CHR ''{'' \<notin> set fname" "set ps = set source_order"
  shows "sub_in_order ps fname (render segs) line column = filled fname line column segs"
  using assms by (simp add: sub_in_order_render source_order_all render_fill_all_UNIV)

lemma sub_absent:
  assumes "\<forall>p. \<not> sublist (token p) arg"
  shows "sub_placeholder fname arg line column = arg"
proof -
  from assms [rule_format, of PhBraces] assms [rule_format, of PhFile]
    assms [rule_format, of PhLine] assms [rule_format, of PhLine0]
    assms [rule_format, of PhColumn] assms [rule_format, of PhColumn0]
  show ?thesis by (simp add: sub_placeholder_def py_replace_absent)
qed

subsection \<open>The name of the temporary file\<close>

lemma tmp_name_first_free:
  "tmp_name quiet_world = ''/tmp/qutebrowser-editor-a1b2c3''"
  by (simp add: tmp_name_def candidate_names_def quiet_world_def)

lemma tmp_name_next_candidate:
  "tmp_name (quiet_world\<lparr>files := [''/tmp/qutebrowser-editor-a1b2c3'' \<mapsto> ''kept'']\<rparr>) =
     ''/tmp/qutebrowser-editor-d4e5f6''"
  by (simp add: tmp_name_def candidate_names_def quiet_world_def)

subsection \<open>Newline translation\<close>

lemma universal_newlines_keep:
  "c \<noteq> CR \<Longrightarrow> universal_newlines (c # s) = c # universal_newlines s"
  by (cases s) simp_all

lemma universal_newlines_crlf:
  "universal_newlines (CR # LF # s) = LF # universal_newlines s"
  by simp

lemma translate_out_Cons:
  "translate_out pf (c # s) = (if c = LF then os_linesep pf else [c]) @ translate_out pf s"
  by (simp add: translate_out_def)

lemma newline_round_trip:
  "CR \<notin> set s \<Longrightarrow> universal_newlines (translate_out pf s) = s"
proof (induction s)
  case Nil
  show ?case by (simp add: translate_out_def)
next
  case (Cons c s)
  then have ih: "universal_newlines (translate_out pf s) = s" and c: "c \<noteq> CR" by auto
  show ?case
  proof (cases "c = LF")
    case True
    then show ?thesis
      using ih by (cases pf) (simp_all add: translate_out_Cons os_linesep_def universal_newlines_keep)
  next
    case False
    with c ih show ?thesis by (simp add: translate_out_Cons universal_newlines_keep)
  qed
qed

subsection \<open>Cleanup and the start of a cycle\<close>

lemma cleanup_noop:
  "remove_file s \<noteq> None \<Longrightarrow> filename s = None \<or> remove_file s = Some False \<Longrightarrow>
     cleanup (s, w) = (Returned, s, w)"
  by (auto simp: cleanup_def)


lemma cleanup_crash:
  "remove_file s = Some True \<Longrightarrow> proc s = Some p \<Longrightarrow> exit_status p = CrashExit \<Longrightarrow>
     cleanup (s, w) = (Returned, s, w)"
  by (simp add: cleanup_def)

lemma cleanup_editor: "editor_of (cleanup (s, w)) = s"
  by (auto simp: cleanup_def editor_of_def split: option.splits prod.splits)

lemma cleanup_emitted: "emitted (world_of (cleanup (s, w))) = emitted w"
  by (auto simp: cleanup_def world_of_def os_remove_def syscall_def message_error_def
      split: option.splits prod.splits if_splits)

lemma cleanup_not_owned:
  "remove_file s \<noteq> Some True \<Longrightarrow> world_of (cleanup (s, w)) = w"
  by (auto simp: cleanup_def world_of_def)

lemma cleanup_removes:
  assumes "remove_file s = Some True" "filename s = Some name" "proc s = Some p"
    "exit_status p = NormalExit"
  shows "\<exists>w1. cleanup (s, w) = (Returned, s, w1) \<and>
           fs_trace w1 = fs_trace w @ [OpRemove name] \<and>
           emitted w1 = emitted w \<and>
           (os_fault w (OpRemove name) = None \<longrightarrow> files w1 name = None) \<and>
           (\<forall>other. other \<noteq> name \<longrightarrow> files w1 other = files w other)"
  using assms
  by (auto simp: cleanup_def os_remove_def syscall_def message_error_def split: option.splits)

lemma edit_busy:
  "filename s \<noteq> None \<Longrightarrow>
     edit cfg txt p (s, w) = (Raised (ValueError ''Already editing a file!''), s, w)"
  by (simp add: edit_def)

lemma edit_started:
  assumes "edit cfg txt p (init_editor, w) = (Returned, s1, w1)" and "proc s1 \<noteq> None"
  shows "\<exists>exe templates.
           editor_command cfg = exe # templates \<and>
           s1 = \<lparr>filename = Some (tmp_name w),
                 proc = Some \<lparr>invocation =
                                Some (exe, map (\<lambda>arg. sub_placeholder (tmp_name w) arg
                                                      (caret_line txt p) (caret_column txt p))
                                             templates),
                              exit_status = NormalExit\<rparr>,
                 remove_file = Some True\<rparr> \<and>
           files w1 (tmp_name w) \<noteq> None \<and> emitted w1 = emitted w \<and> messages w1 = messages w"
  using assms
  by (auto simp: edit_def init_editor_def write_initial_file_def mkstemp_def file_write_def
      file_close_def start_editor_def syscall_def message_error_def Let_def
      split: option.splits if_splits list.splits write_result.splits prod.splits sum.splits)

lemma start_editor_outcome:
  "outcome_of (start_editor cfg line column sw) = outcome_of (start_editor cfg line' column' sw)"
  by (auto simp: start_editor_def outcome_of_def Let_def split: prod.splits list.splits option.splits)

lemma edit_outcome_caret:
  "outcome_of (edit cfg txt p sw) = outcome_of (edit cfg txt q sw)"
proof (cases sw)
  case (Pair s w)
  show ?thesis
  proof (cases "filename s \<noteq> None")
    case True
    with Pair show ?thesis by (simp add: edit_def)
  next
    case False
    obtain t s1 w1 where wi: "write_initial_file cfg txt (s, w) = (t, s1, w1)"
      by (cases "write_initial_file cfg txt (s, w)") auto
    show ?thesis
      using Pair False wi
        start_editor_outcome [of cfg "caret_line txt p" "caret_column txt p"
          "(s1\<lparr>remove_file := Some True\<rparr>, w1)" "caret_line txt q" "caret_column txt q"]
      by (cases t) (simp_all add: edit_def outcome_of_def)
  qed
qed

subsection \<open>The callbacks\<close>

lemma finally_cleanup_editor: "editor_of (finally_cleanup r (s, w)) = s"
  using cleanup_editor [of s w]
  by (auto simp: finally_cleanup_def editor_of_def split: prod.splits outcome.splits)

lemma on_proc_closed_editor: "editor_of (on_proc_closed cfg code st (s, w)) = s"
  by (auto simp: on_proc_closed_def finally_cleanup_editor split: prod.splits read_result.splits)
    (simp add: editor_of_def)

lemma on_proc_error_editor: "editor_of (on_proc_error err (s, w)) = s"
  by (simp add: on_proc_error_def cleanup_editor)

lemma finally_cleanup_not_owned:
  "remove_file s = Some False \<Longrightarrow> finally_cleanup r (s, w) = (r, s, w)"
  by (simp add: finally_cleanup_def cleanup_noop)

lemma read_back_files:
  "files (snd (read_back cfg fname w)) = files w \<and>
   removals (snd (read_back cfg fname w)) = removals w \<and>
   emitted (snd (read_back cfg fname w)) = emitted w"
  by (auto simp: read_back_def syscall_def removals_def split: option.splits)

lemma on_proc_closed_not_owned:
  assumes "remove_file s = Some False"
  shows "files (world_of (on_proc_closed cfg code st (s, w))) = files w \<and>
         removals (world_of (on_proc_closed cfg code st (s, w))) = removals w"
proof -
  obtain rr w1 where rb: "read_back cfg (filename s) w = (rr, w1)"
    by (cases "read_back cfg (filename s) w") auto
  from read_back_files [of cfg "filename s" w] rb
  have w1: "files w1 = files w" "removals w1 = removals w" by simp_all
  show ?thesis
    using assms rb w1
    by (cases rr)
      (auto simp: on_proc_closed_def finally_cleanup_not_owned world_of_def message_error_def
        editing_finished_emit_def removals_def)
qed

lemma on_proc_error_not_owned:
  "remove_file s = Some False \<Longrightarrow> on_proc_error err (s, w) = (Returned, s, w)"
  by (simp add: on_proc_error_def cleanup_noop)

lemma set_exit_status_fields:
  "remove_file (set_exit_status st s) = remove_file s"
  "filename (set_exit_status st s) = filename s"
  by (simp_all add: set_exit_status_def)

lemma process_ended_editor:
  "editor_of (process_ended cfg ev (s, w)) =
     set_exit_status (case ev of CrashedWith c \<Rightarrow> CrashExit | _ \<Rightarrow> NormalExit) s"
proof (cases ev)
  case (ExitedNormally code)
  then show ?thesis by (simp add: process_ended_def on_proc_closed_editor)
next
  case (CrashedWith code)
  let ?s = "set_exit_status CrashExit s"
  obtain r s1 w1 where c: "cleanup (?s, w) = (r, s1, w1)" by (cases "cleanup (?s, w)") auto
  from cleanup_editor [of ?s w] c have s1: "s1 = ?s" by (simp add: editor_of_def)
  show ?thesis
    using CrashedWith c s1 on_proc_closed_editor [of cfg code CrashExit ?s w1]
    by (cases r) (simp_all add: process_ended_def on_proc_error_def editor_of_def)
next
  case FailedStart
  then show ?thesis by (simp add: process_ended_def on_proc_error_editor)
qed

lemma process_ended_not_owned:
  assumes "remove_file s = Some False"
  shows "files (world_of (process_ended cfg ev (s, w))) = files w \<and>
         removals (world_of (process_ended cfg ev (s, w))) = removals w"
proof (cases ev)
  case (ExitedNormally code)
  with assms show ?thesis
    by (simp add: process_ended_def on_proc_closed_not_owned set_exit_status_fields)
next
  case (CrashedWith code)
  with assms show ?thesis
    by (simp add: process_ended_def on_proc_error_not_owned on_proc_closed_not_owned
        set_exit_status_fields)
next
  case FailedStart
  with assms show ?thesis
    by (simp add: process_ended_def on_proc_error_not_owned set_exit_status_fields world_of_def)
qed

lemma edit_file_fields:
  "remove_file (editor_of (edit_file cfg fname (s, w))) = Some False \<and>
   filename (editor_of (edit_file cfg fname (s, w))) = Some fname \<and>
   world_of (edit_file cfg fname (s, w)) = w"
  by (auto simp: edit_file_def start_editor_def editor_of_def world_of_def Let_def
      split: list.splits)

lemma set_exit_status_same:
  "proc s = Some p \<Longrightarrow> exit_status p = st \<Longrightarrow> set_exit_status st s = s"
  by (simp add: set_exit_status_def)

lemma started_shape:
  assumes "edit cfg txt p (init_editor, w0) = (Returned, s1, w1)" and "proc s1 \<noteq> None"
  shows "filename s1 = Some (tmp_name w0)" and "remove_file s1 = Some True"
    and "\<exists>pr. proc s1 = Some pr \<and> exit_status pr = NormalExit"
    and "files w1 (tmp_name w0) \<noteq> None"
  using edit_started [OF assms] by auto

lemma crash_callbacks:
  assumes "remove_file s = Some True" "proc s = Some pr"
  shows "on_proc_error err (set_exit_status CrashExit s, w) =
           (Returned, set_exit_status CrashExit s, w)"
    and "on_proc_closed cfg code CrashExit (s', w) = (Returned, s', w)"
    and "process_ended cfg (CrashedWith code) (s, w) = (Returned, set_exit_status CrashExit s, w)"
proof -
  let ?s = "set_exit_status CrashExit s"
  have c: "cleanup (?s, w) = (Returned, ?s, w)"
    using assms by (intro cleanup_crash [where p = "pr\<lparr>exit_status := CrashExit\<rparr>"])
      (simp_all add: set_exit_status_def)
  show e: "on_proc_error err (?s, w) = (Returned, ?s, w)" for err
    by (simp add: on_proc_error_def c)
  show d: "on_proc_closed cfg code CrashExit (s', w) = (Returned, s', w)" for s'
    by (simp add: on_proc_closed_def)
  show "process_ended cfg (CrashedWith code) (s, w) = (Returned, ?s, w)"
    by (simp add: process_ended_def e d)
qed

lemma finally_cleanup_emitted:
  "emitted (world_of (finally_cleanup r (s, w))) = emitted w"
  using cleanup_emitted [of s w]
  by (auto simp: finally_cleanup_def world_of_def split: prod.splits outcome.splits)

lemma on_proc_closed_emitted:
  "emitted (world_of (on_proc_closed cfg code st (s, w))) = emitted w \<or>
   (\<exists>t. emitted (world_of (on_proc_closed cfg code st (s, w))) = emitted w @ [t])"
proof -
  obtain rr w1 where rb: "read_back cfg (filename s) w = (rr, w1)"
    by (cases "read_back cfg (filename s) w") auto
  from read_back_files [of cfg "filename s" w] rb have e1: "emitted w1 = emitted w" by simp
  show ?thesis
  proof (cases "st \<noteq> NormalExit \<or> code \<noteq> 0")
    case True
    then show ?thesis
      by (auto simp: on_proc_closed_def finally_cleanup_emitted) (simp_all add: world_of_def)
  next
    case False
    then show ?thesis
      using rb e1
      by (cases rr)
        (simp_all add: on_proc_closed_def finally_cleanup_emitted message_error_def
          editing_finished_emit_def)
  qed
qed

lemma on_proc_closed_emitted_length:
  "length (emitted (world_of (on_proc_closed cfg code st (s, w)))) \<le> Suc (length (emitted w))"
  using on_proc_closed_emitted [of cfg code st s w] by auto

lemma on_proc_error_emitted:
  "emitted (world_of (on_proc_error err (s, w))) = emitted w"
  by (simp add: on_proc_error_def cleanup_emitted)

lemma process_ended_emitted_length:
  "length (emitted (world_of (process_ended cfg ev (s, w)))) \<le> Suc (length (emitted w))"
proof (cases ev)
  case (ExitedNormally code)
  then show ?thesis by (simp add: process_ended_def on_proc_closed_emitted_length)
next
  case (CrashedWith code)
  let ?s = "set_exit_status CrashExit s"
  obtain r s1 w1 where c: "cleanup (?s, w) = (r, s1, w1)" by (cases "cleanup (?s, w)") auto
  from cleanup_emitted [of ?s w] c have e: "emitted w1 = emitted w" by (simp add: world_of_def)
  show ?thesis
  proof (cases r)
    case Returned
    with CrashedWith c have "process_ended cfg ev (s, w) = (Returned, s1, w1)"
      by (simp add: process_ended_def on_proc_error_def on_proc_closed_def)
    then show ?thesis by (simp add: world_of_def e)
  next
    case (Raised x)
    with CrashedWith c have "process_ended cfg ev (s, w) = (Raised x, s1, w1)"
      by (simp add: process_ended_def on_proc_error_def)
    then show ?thesis by (simp add: world_of_def e)
  qed
next
  case FailedStart
  then show ?thesis by (simp add: process_ended_def on_proc_error_emitted)
qed

lemma write_initial_file_ok:
  assumes "files w (tmp_name w) = None" "os_fault w OpMkstemp = None"
    "os_fault w (OpWrite (tmp_name w)) = None" "os_fault w (OpClose (tmp_name w)) = None"
    "codec_round_trips (editor_encoding cfg) (os_platform w) txt"
  shows "\<exists>w1 bytes. write_initial_file cfg txt (s, w) =
             (TmpDone, s\<lparr>filename := Some (tmp_name w)\<rparr>, w1) \<and>
           files w1 (tmp_name w) = Some bytes \<and>
           decode (editor_encoding cfg) bytes = Some (translate_out (os_platform w) txt) \<and>
           os_fault w1 = os_fault w \<and> emitted w1 = emitted w"
proof (cases "txt = []")
  case True
  with assms show ?thesis
    by (simp add: write_initial_file_def mkstemp_def file_close_def syscall_def
        codec_round_trips_def translate_out_def)
next
  case False
  with assms(5) obtain bytes where
    enc: "encode (editor_encoding cfg) (translate_out (os_platform w) txt) = Some bytes"
    and dec: "decode (editor_encoding cfg) bytes = Some (translate_out (os_platform w) txt)"
    by (auto simp: codec_round_trips_def split: option.splits)
  with False assms(1-4) show ?thesis
    by (auto simp: write_initial_file_def mkstemp_def file_write_def file_close_def syscall_def)
qed

lemma read_back_ok:
  assumes "os_fault w (OpRead name) = None" "files w name = Some bytes"
    "decode (editor_encoding cfg) bytes = Some (translate_out pf txt)" "CR \<notin> set txt"
  shows "read_back cfg (Some name) w = (ReadOk txt, syscall (OpRead name) w)"
  using assms by (simp add: read_back_def newline_round_trip)

lemma start_editor_ok:
  assumes "editor_command cfg = exe # templates" "filename s = Some name"
  shows "start_editor cfg line column (s, w) =
           (Returned,
            s\<lparr>proc := Some \<lparr>invocation =
                               Some (exe, map (\<lambda>arg. sub_placeholder name arg line column) templates),
                             exit_status = NormalExit\<rparr>\<rparr>, w)"
  using assms by (simp add: start_editor_def Let_def)

lemma edit_returns:
  assumes "filename s = None" and "files w (tmp_name w) = None"
    and "os_fault w OpMkstemp = None" and "os_fault w (OpWrite (tmp_name w)) = None"
    and "os_fault w (OpClose (tmp_name w)) = None"
    and "editor_command cfg = exe # templates"
    and "txt = [] \<or> encode (editor_encoding cfg) (translate_out (os_platform w) txt) \<noteq> None"
  shows "\<exists>w1. edit cfg txt p (s, w) =
           (Returned,
            s\<lparr>filename := Some (tmp_name w), remove_file := Some True,
              proc := Some \<lparr>invocation =
                Some (exe, map (\<lambda>arg. sub_placeholder (tmp_name w) arg
                                  (caret_line txt p) (caret_column txt p)) templates),
                exit_status = NormalExit\<rparr>\<rparr>, w1)"
proof (cases "txt = []")
  case True
  with assms(1-6) show ?thesis
    by (simp add: edit_def write_initial_file_def mkstemp_def file_close_def syscall_def
        start_editor_def Let_def)
next
  case False
  with assms(7) obtain bytes where
    "encode (editor_encoding cfg) (translate_out (os_platform w) txt) = Some bytes"
    by auto
  with False assms(1-6) show ?thesis
    by (simp add: edit_def write_initial_file_def mkstemp_def file_write_def file_close_def
        syscall_def start_editor_def Let_def)
qed

lemma caret_beyond_index:
  assumes "int (length txt) < p"
  shows "caret_line txt p = int (newlines_before txt (length txt)) + 1"
    and "last_newline_before txt (length txt) (p - caret_column txt p)"
proof -
  from assms have sl: "py_slice_to txt p = take (length txt) txt"
    by (simp add: py_slice_to_def)
  show "caret_line txt p = int (newlines_before txt (length txt)) + 1"
    by (simp only: caret_line_def sl py_count_take)
  have "p - caret_column txt p = py_rfind (take (length txt) txt) LF"
    by (simp add: caret_column_def sl)
  then show "last_newline_before txt (length txt) (p - caret_column txt p)"
    by (simp only: py_rfind_take_last)
qed

section \<open>The claims\<close>

subsection \<open>C1: line and column of the caret\<close>

text \<open>
  C1. For every text and every caret position within the text, \<open>edit\<close> computes the
  1-based line as one more than the number of newlines before the caret, and the
  1-based column as the caret position minus the index of the last newline before the
  caret (that index being \<open>-1\<close> when there is none); both are at least 1. The values
  are the ones the argument templates of the started editor are filled with. The text
  \<open>"aaa\nbbbbb"\<close> with the caret at 6 gives line 2 and column 3.
\<close>

theorem caret_line_column:
  "(0 \<le> p \<and> p \<le> int (length txt) \<longrightarrow>
      caret_line txt p = int (newlines_before txt (nat p)) + 1 \<and>
      last_newline_before txt (nat p) (p - caret_column txt p) \<and>
      1 \<le> caret_line txt p \<and> 1 \<le> caret_column txt p) \<and>
   (edit cfg txt p (init_editor, w) = (Returned, s1, w1) \<and> proc s1 = Some pr \<longrightarrow>
      (\<exists>exe templates. editor_command cfg = exe # templates \<and>
         invocation pr =
           Some (exe, map (\<lambda>arg. sub_placeholder (tmp_name w) arg
                                   (caret_line txt p) (caret_column txt p)) templates))) \<and>
   caret_line (''aaa'' @ LF # ''bbbbb'') 6 = 2 \<and>
   caret_column (''aaa'' @ LF # ''bbbbb'') 6 = 3"
proof (intro conjI impI)
  assume "0 \<le> p \<and> p \<le> int (length txt)"
  then have a: "0 \<le> p" and b: "p \<le> int (length txt)" by simp_all
  show "caret_line txt p = int (newlines_before txt (nat p)) + 1"
    using a b by (rule caret_general(1))
  show "last_newline_before txt (nat p) (p - caret_column txt p)"
    using a b by (rule caret_general(2))
  show "1 \<le> caret_line txt p" using a b by (rule caret_general(3))
  show "1 \<le> caret_column txt p" using a b by (rule caret_general(4))
next
  assume h: "edit cfg txt p (init_editor, w) = (Returned, s1, w1) \<and> proc s1 = Some pr"
  then have e: "edit cfg txt p (init_editor, w) = (Returned, s1, w1)" and "proc s1 \<noteq> None"
    by simp_all
  from edit_started [OF this] h
  show "\<exists>exe templates. editor_command cfg = exe # templates \<and>
         invocation pr =
           Some (exe, map (\<lambda>arg. sub_placeholder (tmp_name w) arg
                                   (caret_line txt p) (caret_column txt p)) templates)"
    by auto
next
  show "caret_line (''aaa'' @ LF # ''bbbbb'') 6 = 2" using caret_example by simp
  show "caret_column (''aaa'' @ LF # ''bbbbb'') 6 = 3" using caret_example by simp
qed

text \<open>
  The instance of C1 at the text \<open>"aaa\nbbbbb"\<close>, caret 6, with the default command in
  the quiet world: one newline before the caret, the last one at index 3, and the editor
  is started on line 2, column 3.
\<close>

theorem caret_line_column_witness:
  "(0::int) \<le> 6 \<and> (6::int) \<le> int (length (''aaa'' @ LF # ''bbbbb'')) \<and>
   newlines_before (''aaa'' @ LF # ''bbbbb'') 6 = 1 \<and>
   last_newline_before (''aaa'' @ LF # ''bbbbb'') 6 3 \<and>
   outcome_of (edit default_config (''aaa'' @ LF # ''bbbbb'') 6 (init_editor, quiet_world)) = Returned \<and>
   map_option invocation
     (proc (editor_of (edit default_config (''aaa'' @ LF # ''bbbbb'') 6 (init_editor, quiet_world)))) =
     Some (Some (''gvim'', [''-f'', ''/tmp/qutebrowser-editor-a1b2c3'', ''-c'', ''normal 2G2l'']))"
proof -
  let ?t = "''aaa'' @ LF # ''bbbbb''"
  let ?r = "edit default_config ?t 6 (init_editor, quiet_world)"
  note inst = caret_line_column [of 6 ?t default_config quiet_world "editor_of ?r" "world_of ?r"]
  have c: "caret_line ?t 6 = 2" "caret_column ?t 6 = 3"
    by (simp_all add: caret_line_def caret_column_def py_slice_to_def py_count_def)
  have out: "outcome_of ?r = Returned"
    by (simp add: eval_defs)
  have run: "?r = (Returned, editor_of ?r, world_of ?r)"
    by (simp add: eval_defs)
  obtain pr where pr: "proc (editor_of ?r) = Some pr"
    by (simp add: eval_defs)
  have "(0::int) \<le> 6 \<and> (6::int) \<le> int (length ?t) \<longrightarrow>
      caret_line ?t 6 = int (newlines_before ?t (nat 6)) + 1 \<and>
      last_newline_before ?t (nat 6) (6 - caret_column ?t 6) \<and>
      1 \<le> caret_line ?t 6 \<and> 1 \<le> caret_column ?t 6"
    using inst [of pr] by (rule conjunct1)
  then have "caret_line ?t 6 = int (newlines_before ?t (nat 6)) + 1 \<and>
      last_newline_before ?t (nat 6) (6 - caret_column ?t 6)"
    by simp
  then have pos: "newlines_before ?t 6 = 1" "last_newline_before ?t 6 3"
    unfolding c by simp_all
  have "?r = (Returned, editor_of ?r, world_of ?r) \<and> proc (editor_of ?r) = Some pr \<longrightarrow>
      (\<exists>exe templates. editor_command default_config = exe # templates \<and>
         invocation pr =
           Some (exe, map (\<lambda>arg. sub_placeholder (tmp_name quiet_world) arg
                                   (caret_line ?t 6) (caret_column ?t 6)) templates))"
    using inst [of pr] by (rule conjunct1 [OF conjunct2])
  with run pr obtain exe templates where
    ec: "editor_command default_config = exe # templates" and
    iv: "invocation pr =
           Some (exe, map (\<lambda>arg. sub_placeholder (tmp_name quiet_world) arg
                                   (caret_line ?t 6) (caret_column ?t 6)) templates)"
    by blast
  from ec have "exe = ''gvim''" and "templates = [''-f'', ''{file}'', ''-c'', ''normal {line}G{column0}l'']"
    by (simp_all add: default_config_def)
  with iv pr have inv: "map_option invocation (proc (editor_of ?r)) =
     Some (Some (''gvim'', [''-f'', ''/tmp/qutebrowser-editor-a1b2c3'', ''-c'', ''normal 2G2l'']))"
    unfolding c
    by (simp add: tmp_name_def candidate_names_def quiet_world_def sub_placeholder_def
        py_str_def digits_of.simps digit_chr_def)
  from pos out inv show ?thesis by simp
qed

subsection \<open>C3: placeholder substitution\<close>

text \<open>
  C3, as the code has it. \<open>_sub_placeholder\<close> replaces the six tokens literally, in the
  fixed order \<open>{}\<close>, \<open>{file}\<close>, \<open>{line}\<close>, \<open>{line0}\<close>, \<open>{column}\<close>, \<open>{column0}\<close>. An
  argument in which none of the six tokens occurs is returned unchanged. For a template
  made of placeholders and of literal text without an opening brace, and a file name
  without an opening brace, replacing the six placeholders in any order gives the same
  result as the source's order: every placeholder replaced by its value. The template
  \<open>"{file}:{line}:{column}"\<close> with file name \<open>/tmp/x\<close>, line 4 and column 9 gives
  \<open>"/tmp/x:4:9"\<close>.
\<close>

theorem sub_placeholder_literal:
  "sub_placeholder fname arg line column = sub_in_order source_order fname arg line column \<and>
   ((\<forall>p. \<not> sublist (token p) arg) \<longrightarrow> sub_placeholder fname arg line column = arg) \<and>
   (plain_literals segs \<and> CHR ''{'' \<notin> set fname \<and> set ps = set source_order \<longrightarrow>
      sub_in_order ps fname (render segs) line column =
        sub_placeholder fname (render segs) line column \<and>
      sub_placeholder fname (render segs) line column = filled fname line column segs) \<and>
   sub_placeholder ''/tmp/x'' ''{file}:{line}:{column}'' 4 9 = ''/tmp/x:4:9''"
proof (intro conjI impI)
  show "sub_placeholder fname arg line column = sub_in_order source_order fname arg line column"
    by (rule sub_placeholder_in_order)
next
  assume "\<forall>p. \<not> sublist (token p) arg"
  then show "sub_placeholder fname arg line column = arg" by (rule sub_absent)
next
  assume h: "plain_literals segs \<and> CHR ''{'' \<notin> set fname \<and> set ps = set source_order"
  then have pl: "plain_literals segs" and fn: "CHR ''{'' \<notin> set fname"
    and ps: "set ps = set source_order" by simp_all
  have src: "sub_placeholder fname (render segs) line column = filled fname line column segs"
    unfolding sub_placeholder_in_order using pl fn by (rule sub_any_order) simp
  have any: "sub_in_order ps fname (render segs) line column = filled fname line column segs"
    using pl fn ps by (rule sub_any_order)
  show "sub_in_order ps fname (render segs) line column =
        sub_placeholder fname (render segs) line column"
    using src any by simp
  show "sub_placeholder fname (render segs) line column = filled fname line column segs"
    by (rule src)
next
  show "sub_placeholder ''/tmp/x'' ''{file}:{line}:{column}'' 4 9 = ''/tmp/x:4:9''"
    by (simp add: sub_placeholder_def py_str_def digits_of.simps digit_chr_def)
qed

text \<open>
  The instance of C3 at the argument \<open>"--nofork"\<close>, which holds no token, and at the
  template \<open>"{file}:{line}:{column}"\<close> with the placeholders replaced in the reverse of
  the source's order.
\<close>

theorem sub_placeholder_literal_witness:
  "(\<forall>p. \<not> sublist (token p) ''--nofork'') \<and>
   sub_placeholder ''/tmp/x'' ''--nofork'' 4 9 = ''--nofork'' \<and>
   plain_literals [Ph PhFile, Lit '':'', Ph PhLine, Lit '':'', Ph PhColumn] \<and>
   CHR ''{'' \<notin> set ''/tmp/x'' \<and>
   set (rev source_order) = set source_order \<and>
   sub_in_order (rev source_order) ''/tmp/x'' ''{file}:{line}:{column}'' 4 9 = ''/tmp/x:4:9''"
proof -
  let ?segs = "[Ph PhFile, Lit '':'', Ph PhLine, Lit '':'', Ph PhColumn]"
  have absent: "\<forall>p. \<not> sublist (token p) ''--nofork''"
  proof
    fix p show "\<not> sublist (token p) ''--nofork''"
      by (cases p) (simp_all add: sublist_Cons_right)
  qed
  have same: "sub_placeholder ''/tmp/x'' ''--nofork'' 4 9 = ''--nofork''"
    using sub_placeholder_literal [of "''/tmp/x''" "''--nofork''" 4 9 ?segs "rev source_order"] absent
    by blast
  have pre: "plain_literals ?segs \<and> CHR ''{'' \<notin> set ''/tmp/x'' \<and>
      set (rev source_order) = set source_order"
    by simp
  have r: "render ?segs = ''{file}:{line}:{column}''" by simp
  have "sub_in_order (rev source_order) ''/tmp/x'' (render ?segs) 4 9 =
        sub_placeholder ''/tmp/x'' (render ?segs) 4 9"
    using sub_placeholder_literal [of "''/tmp/x''" "''--nofork''" 4 9 ?segs "rev source_order"] pre
    by blast
  moreover have "sub_placeholder ''/tmp/x'' ''{file}:{line}:{column}'' 4 9 = ''/tmp/x:4:9''"
    by (simp add: sub_placeholder_def py_str_def digits_of.simps digit_chr_def)
  ultimately have "sub_in_order (rev source_order) ''/tmp/x'' ''{file}:{line}:{column}'' 4 9 =
      ''/tmp/x:4:9''"
    unfolding r by simp
  with absent same pre show ?thesis by blast
qed

text \<open>
  C3 as stated fails: the result depends on the order of the replacements when a
  replacement brings in a token. With the file name \<open>{line}\<close> and the template
  \<open>"{file}"\<close>, the source's order first puts the file name in and then replaces it by
  the line number, while the order that replaces the line first leaves the file name.
\<close>

theorem sub_placeholder_order_counterexample:
  "sub_placeholder ''{line}'' ''{file}'' 4 9 = ''4'' \<and>
   sub_in_order [PhLine, PhLine0, PhColumn, PhColumn0, PhBraces, PhFile] ''{line}'' ''{file}'' 4 9
     = ''{line}''"
  by (simp add: sub_in_order_def sub_placeholder_def py_str_def digits_of.simps digit_chr_def)

subsection \<open>C10: a caret beyond the end of the text\<close>

text \<open>
  C10. For every text and every caret position greater than the length of the text,
  the line is one more than the number of newlines of the whole text, as for a caret
  at the end of the text, and the column is the caret position minus the index of the
  last newline of the whole text (\<open>-1\<close> when there is none), so it exceeds the column
  of the end of the text by as much as the caret exceeds the length. \<open>edit\<close> ends the
  same way (returns or raises) as with the caret at the end of the text. It does not
  fail: where no file is being edited, the temporary file can be created, written and
  closed and the editor command is not empty, \<open>edit\<close> returns, having started the
  editor with that line and that column. The text \<open>"ab"\<close> with the caret at 5 gives
  line 1 and column 6; the text \<open>"a\nb"\<close> with the caret at 1000 gives line 2 and
  column 999.
\<close>

theorem caret_beyond_end:
  "(int (length txt) < p \<longrightarrow>
      caret_line txt p = int (newlines_before txt (length txt)) + 1 \<and>
      last_newline_before txt (length txt) (p - caret_column txt p) \<and>
      caret_line txt p = caret_line txt (int (length txt)) \<and>
      caret_column txt p = p - py_rfind txt LF \<and>
      caret_column txt p = caret_column txt (int (length txt)) + (p - int (length txt)) \<and>
      outcome_of (edit cfg txt p sw) = outcome_of (edit cfg txt (int (length txt)) sw)) \<and>
   (int (length txt) < p \<and> filename s = None \<and> files w (tmp_name w) = None \<and>
    os_fault w OpMkstemp = None \<and> os_fault w (OpWrite (tmp_name w)) = None \<and>
    os_fault w (OpClose (tmp_name w)) = None \<and> editor_command cfg = exe # templates \<and>
    (txt = [] \<or> encode (editor_encoding cfg) (translate_out (os_platform w) txt) \<noteq> None) \<longrightarrow>
      (\<exists>w1. edit cfg txt p (s, w) =
           (Returned,
            s\<lparr>filename := Some (tmp_name w), remove_file := Some True,
              proc := Some \<lparr>invocation =
                Some (exe, map (\<lambda>arg. sub_placeholder (tmp_name w) arg
                                  (caret_line txt (int (length txt))) (p - py_rfind txt LF))
                             templates),
                exit_status = NormalExit\<rparr>\<rparr>, w1))) \<and>
   caret_line ''ab'' 5 = 1 \<and> caret_column ''ab'' 5 = 6 \<and>
   caret_line (''a'' @ LF # ''b'') 1000 = 2 \<and> caret_column (''a'' @ LF # ''b'') 1000 = 999"
proof (intro conjI impI)
  assume a: "int (length txt) < p"
  show "caret_line txt p = int (newlines_before txt (length txt)) + 1"
    using a by (rule caret_beyond_index(1))
  show "last_newline_before txt (length txt) (p - caret_column txt p)"
    using a by (rule caret_beyond_index(2))
  show "caret_line txt p = caret_line txt (int (length txt))" using a by (rule caret_beyond(1))
  show "caret_column txt p = p - py_rfind txt LF" using a by (rule caret_beyond(2))
  show "caret_column txt p = caret_column txt (int (length txt)) + (p - int (length txt))"
    using a by (rule caret_beyond(3))
  show "outcome_of (edit cfg txt p sw) = outcome_of (edit cfg txt (int (length txt)) sw)"
    by (rule edit_outcome_caret)
next
  assume h: "int (length txt) < p \<and> filename s = None \<and> files w (tmp_name w) = None \<and>
    os_fault w OpMkstemp = None \<and> os_fault w (OpWrite (tmp_name w)) = None \<and>
    os_fault w (OpClose (tmp_name w)) = None \<and> editor_command cfg = exe # templates \<and>
    (txt = [] \<or> encode (editor_encoding cfg) (translate_out (os_platform w) txt) \<noteq> None)"
  then have a: "int (length txt) < p" by simp
  from h have h1: "filename s = None" and h2: "files w (tmp_name w) = None"
    and h3: "os_fault w OpMkstemp = None" and h4: "os_fault w (OpWrite (tmp_name w)) = None"
    and h5: "os_fault w (OpClose (tmp_name w)) = None"
    and h6: "editor_command cfg = exe # templates"
    and h7: "txt = [] \<or> encode (editor_encoding cfg) (translate_out (os_platform w) txt) \<noteq> None"
    by simp_all
  from edit_returns [OF h1 h2 h3 h4 h5 h6 h7, of p]
  show "\<exists>w1. edit cfg txt p (s, w) =
           (Returned,
            s\<lparr>filename := Some (tmp_name w), remove_file := Some True,
              proc := Some \<lparr>invocation =
                Some (exe, map (\<lambda>arg. sub_placeholder (tmp_name w) arg
                                  (caret_line txt (int (length txt))) (p - py_rfind txt LF))
                             templates),
                exit_status = NormalExit\<rparr>\<rparr>, w1)"
    unfolding caret_beyond(1) [OF a] caret_beyond(2) [OF a] .
next
  show "caret_line ''ab'' 5 = 1"
    by (simp add: caret_line_def py_slice_to_def py_count_def)
  show "caret_column ''ab'' 5 = 6"
    by (simp add: caret_column_def py_slice_to_def)
  show "caret_line (''a'' @ LF # ''b'') 1000 = 2"
    by (simp add: caret_line_def py_slice_to_def py_count_def)
  show "caret_column (''a'' @ LF # ''b'') 1000 = 999"
    by (simp add: caret_column_def py_slice_to_def)
qed

text \<open>
  The instance of C10 at the text \<open>"a\nb"\<close> and the caret 1000, with the default
  command in the quiet world: one newline in the text, the last one at index 1, \<open>edit\<close>
  returns and the editor is started on line 2, column 999 (the template holds the
  0-based column, 998).
\<close>

theorem caret_beyond_end_witness:
  "int (length (''a'' @ LF # ''b'')) < 1000 \<and> filename init_editor = None \<and>
   files quiet_world (tmp_name quiet_world) = None \<and>
   os_fault quiet_world OpMkstemp = None \<and>
   os_fault quiet_world (OpWrite (tmp_name quiet_world)) = None \<and>
   os_fault quiet_world (OpClose (tmp_name quiet_world)) = None \<and>
   editor_command default_config =
     ''gvim'' # [''-f'', ''{file}'', ''-c'', ''normal {line}G{column0}l''] \<and>
   encode (editor_encoding default_config)
     (translate_out (os_platform quiet_world) (''a'' @ LF # ''b'')) \<noteq> None \<and>
   newlines_before (''a'' @ LF # ''b'') 3 = 1 \<and>
   last_newline_before (''a'' @ LF # ''b'') 3 1 \<and>
   caret_line (''a'' @ LF # ''b'') (int (length (''a'' @ LF # ''b''))) = 2 \<and>
   py_rfind (''a'' @ LF # ''b'') LF = 1 \<and>
   caret_column (''a'' @ LF # ''b'') (int (length (''a'' @ LF # ''b''))) = 2 \<and>
   outcome_of (edit default_config (''a'' @ LF # ''b'') 1000 (init_editor, quiet_world)) = Returned \<and>
   map_option invocation
     (proc (editor_of (edit default_config (''a'' @ LF # ''b'') 1000 (init_editor, quiet_world)))) =
     Some (Some (''gvim'', [''-f'', ''/tmp/qutebrowser-editor-a1b2c3'', ''-c'', ''normal 2G998l'']))"
proof -
  let ?t = "''a'' @ LF # ''b''"
  let ?tpl = "[''-f'', ''{file}'', ''-c'', ''normal {line}G{column0}l'']"
  let ?run = "edit default_config ?t 1000 (init_editor, quiet_world)"
  note inst = caret_beyond_end [of ?t 1000 default_config "(init_editor, quiet_world)"
      init_editor quiet_world "''gvim''" ?tpl]
  have len: "length ?t = 3" by simp
  have h1: "int (length ?t) < 1000" by simp
  have h2: "filename init_editor = None" by (simp add: init_editor_def)
  have h3: "files quiet_world (tmp_name quiet_world) = None" by (simp add: quiet_world_def)
  have h4: "os_fault quiet_world OpMkstemp = None" by (simp add: quiet_world_def)
  have h5: "os_fault quiet_world (OpWrite (tmp_name quiet_world)) = None"
    by (simp add: quiet_world_def)
  have h6: "os_fault quiet_world (OpClose (tmp_name quiet_world)) = None"
    by (simp add: quiet_world_def)
  have h7: "editor_command default_config = ''gvim'' # ?tpl" by (simp add: default_config_def)
  have h8: "encode (editor_encoding default_config)
              (translate_out (os_platform quiet_world) ?t) \<noteq> None"
    by (simp add: default_config_def latin1_def)
  have first: "int (length ?t) < 1000 \<longrightarrow>
      caret_line ?t 1000 = int (newlines_before ?t (length ?t)) + 1 \<and>
      last_newline_before ?t (length ?t) (1000 - caret_column ?t 1000) \<and>
      caret_line ?t 1000 = caret_line ?t (int (length ?t)) \<and>
      caret_column ?t 1000 = 1000 - py_rfind ?t LF \<and>
      caret_column ?t 1000 = caret_column ?t (int (length ?t)) + (1000 - int (length ?t)) \<and>
      outcome_of ?run = outcome_of (edit default_config ?t (int (length ?t)) (init_editor, quiet_world))"
    using inst by (rule conjunct1)
  have ex: "caret_line ?t 1000 = 2 \<and> caret_column ?t 1000 = 999"
    using inst by (rule conjunct2 [OF conjunct2 [OF conjunct2 [OF conjunct2]]])
  from first h1 have all: "caret_line ?t 1000 = int (newlines_before ?t (length ?t)) + 1 \<and>
      last_newline_before ?t (length ?t) (1000 - caret_column ?t 1000) \<and>
      caret_line ?t 1000 = caret_line ?t (int (length ?t)) \<and>
      caret_column ?t 1000 = 1000 - py_rfind ?t LF \<and>
      caret_column ?t 1000 = caret_column ?t (int (length ?t)) + (1000 - int (length ?t))"
    by blast
  from ex have cl: "caret_line ?t 1000 = 2" and cc: "caret_column ?t 1000 = 999" by simp_all
  from all have n: "newlines_before ?t 3 = 1" unfolding cl len by simp
  from all have l: "last_newline_before ?t 3 1" unfolding cc len by simp
  from all have v1: "caret_line ?t (int (length ?t)) = 2" unfolding cl by simp
  from all have v2: "py_rfind ?t LF = 1" unfolding cc by simp
  from all have v3: "caret_column ?t (int (length ?t)) = 2" unfolding cc len by simp
  have second: "int (length ?t) < 1000 \<and> filename init_editor = None \<and>
      files quiet_world (tmp_name quiet_world) = None \<and>
      os_fault quiet_world OpMkstemp = None \<and>
      os_fault quiet_world (OpWrite (tmp_name quiet_world)) = None \<and>
      os_fault quiet_world (OpClose (tmp_name quiet_world)) = None \<and>
      editor_command default_config = ''gvim'' # ?tpl \<and>
      (?t = [] \<or> encode (editor_encoding default_config)
          (translate_out (os_platform quiet_world) ?t) \<noteq> None) \<longrightarrow>
      (\<exists>w1. ?run =
           (Returned,
            init_editor\<lparr>filename := Some (tmp_name quiet_world), remove_file := Some True,
              proc := Some \<lparr>invocation =
                Some (''gvim'', map (\<lambda>arg. sub_placeholder (tmp_name quiet_world) arg
                                  (caret_line ?t (int (length ?t))) (1000 - py_rfind ?t LF))
                             ?tpl),
                exit_status = NormalExit\<rparr>\<rparr>, w1))"
    using inst by (rule conjunct1 [OF conjunct2])
  from second h1 h2 h3 h4 h5 h6 h7 h8 obtain w1 where
    e: "?run =
           (Returned,
            init_editor\<lparr>filename := Some (tmp_name quiet_world), remove_file := Some True,
              proc := Some \<lparr>invocation =
                Some (''gvim'', map (\<lambda>arg. sub_placeholder (tmp_name quiet_world) arg
                                  (caret_line ?t (int (length ?t))) (1000 - py_rfind ?t LF))
                             ?tpl),
                exit_status = NormalExit\<rparr>\<rparr>, w1)"
    by blast
  have o: "outcome_of ?run = Returned"
    unfolding e by (simp add: outcome_of_def)
  have m: "map_option invocation (proc (editor_of ?run)) =
     Some (Some (''gvim'', [''-f'', ''/tmp/qutebrowser-editor-a1b2c3'', ''-c'', ''normal 2G998l'']))"
    unfolding e v1 v2
    by (simp add: editor_of_def tmp_name_def candidate_names_def quiet_world_def
        sub_placeholder_def py_str_def digits_of.simps digit_chr_def)
  from h1 h2 h3 h4 h5 h6 h7 h8 n l v1 v2 v3 o m show ?thesis by (intro conjI)
qed

subsection \<open>C2: a second edit while one is in progress\<close>

text \<open>
  C2 says that both \<open>edit\<close> and \<open>edit_file\<close> refuse to start while \<open>_filename\<close> is set.
  \<open>edit\<close> does (it raises \<open>ValueError\<close> and changes nothing); \<open>edit_file\<close> has no such
  check. Evaluated in the state left by \<open>edit\<close> on the text \<open>"draft"\<close>: \<open>edit\<close> raises,
  while \<open>edit_file\<close> returns, having replaced \<open>_filename\<close> by the new name, \<open>_remove_file\<close> by
  \<open>False\<close> and \<open>_proc\<close> by a new process.
\<close>

theorem edit_file_unguarded:
  "filename (editor_of busy_run) = Some ''/tmp/qutebrowser-editor-a1b2c3'' \<and>
   remove_file (editor_of busy_run) = Some True \<and>
   edit default_config ''other'' 0 (editor_of busy_run, world_of busy_run) =
     (Raised (ValueError ''Already editing a file!''), editor_of busy_run, world_of busy_run) \<and>
   outcome_of (edit_file default_config ''/etc/hosts'' (editor_of busy_run, world_of busy_run)) =
     Returned \<and>
   filename (editor_of (edit_file default_config ''/etc/hosts''
     (editor_of busy_run, world_of busy_run))) = Some ''/etc/hosts'' \<and>
   remove_file (editor_of (edit_file default_config ''/etc/hosts''
     (editor_of busy_run, world_of busy_run))) = Some False \<and>
   map_option invocation (proc (editor_of (edit_file default_config ''/etc/hosts''
     (editor_of busy_run, world_of busy_run)))) =
     Some (Some (''gvim'', [''-f'', ''/etc/hosts'', ''-c'', ''normal 1G0l'']))"
proof -
  have f: "filename (editor_of busy_run) = Some ''/tmp/qutebrowser-editor-a1b2c3''"
    and r: "remove_file (editor_of busy_run) = Some True"
    by (simp_all add: busy_run_def eval_defs)
  from f have g: "edit default_config ''other'' 0 (editor_of busy_run, world_of busy_run) =
     (Raised (ValueError ''Already editing a file!''), editor_of busy_run, world_of busy_run)"
    by (simp add: edit_busy)
  have o: "outcome_of (edit_file default_config ''/etc/hosts'' (editor_of busy_run, world_of busy_run)) =
     Returned"
    by (simp add: edit_file_def start_editor_def outcome_of_def default_config_def)
  have i: "map_option invocation (proc (editor_of (edit_file default_config ''/etc/hosts''
     (editor_of busy_run, world_of busy_run)))) =
     Some (Some (''gvim'', [''-f'', ''/etc/hosts'', ''-c'', ''normal 1G0l'']))"
    by (simp add: edit_file_def start_editor_def editor_of_def default_config_def
        sub_placeholder_def py_str_def digits_of.simps digit_chr_def)
  from f r g o i edit_file_fields [of default_config "''/etc/hosts''" "editor_of busy_run" "world_of busy_run"]
  show ?thesis by simp
qed

subsection \<open>C4: the round trip of the text\<close>

text \<open>
  C4, as the code has it. Let the text hold no carriage return and let the configured
  codec give it back. From a state in which no file is being edited, when the operating
  system refuses neither the creation, the write, the close nor the read of the
  temporary file and the editor command is not empty, \<open>edit\<close> returns without emitting
  anything, and the normal exit of the process with code zero, the file being as
  \<open>edit\<close> left it, emits \<open>editing_finished\<close> once, with exactly that text (the empty
  text included). Whatever the state and the way the process ends, the end of a process
  emits \<open>editing_finished\<close> at most once.
\<close>

theorem edit_round_trip:
  assumes "filename s = None" and "files w (tmp_name w) = None"
    and "os_fault w OpMkstemp = None" and "os_fault w (OpWrite (tmp_name w)) = None"
    and "os_fault w (OpClose (tmp_name w)) = None" and "os_fault w (OpRead (tmp_name w)) = None"
    and "editor_command cfg \<noteq> []" and "CR \<notin> set txt"
    and "codec_round_trips (editor_encoding cfg) (os_platform w) txt"
  shows "(\<exists>s1 w1 w2. edit cfg txt p (s, w) = (Returned, s1, w1) \<and> emitted w1 = emitted w \<and>
            on_proc_closed cfg 0 NormalExit (s1, w1) = (Returned, s1, w2) \<and>
            process_ended cfg (ExitedNormally 0) (s1, w1) = (Returned, s1, w2) \<and>
            emitted w2 = emitted w @ [txt]) \<and>
         (\<forall>ev s' w'. length (emitted (world_of (process_ended cfg ev (s', w'))))
            \<le> Suc (length (emitted w')))"
proof (rule conjI)
  let ?name = "tmp_name w"
  from write_initial_file_ok [OF assms(2,3,4,5,9), of s] obtain w1 bytes where
    wi: "write_initial_file cfg txt (s, w) = (TmpDone, s\<lparr>filename := Some ?name\<rparr>, w1)"
    and disk: "files w1 ?name = Some bytes"
    and dec: "decode (editor_encoding cfg) bytes = Some (translate_out (os_platform w) txt)"
    and fault: "os_fault w1 = os_fault w" and em1: "emitted w1 = emitted w"
    by blast
  from assms(7) obtain exe templates where cmd: "editor_command cfg = exe # templates"
    by (cases "editor_command cfg") auto
  let ?pr = "\<lparr>invocation =
                Some (exe, map (\<lambda>arg. sub_placeholder ?name arg
                                      (caret_line txt p) (caret_column txt p)) templates),
              exit_status = NormalExit\<rparr>"
  let ?s1 = "s\<lparr>filename := Some ?name, remove_file := Some True, proc := Some ?pr\<rparr>"
  have ed: "edit cfg txt p (s, w) = (Returned, ?s1, w1)"
    using assms(1) wi by (simp add: edit_def start_editor_ok [OF cmd])
  have same: "set_exit_status NormalExit ?s1 = ?s1"
    by (rule set_exit_status_same [where p = ?pr]) simp_all
  have rd: "read_back cfg (Some ?name) w1 = (ReadOk txt, syscall (OpRead ?name) w1)"
    using read_back_ok [OF _ disk dec assms(8)] assms(6) fault by simp
  let ?w = "editing_finished_emit txt (syscall (OpRead ?name) w1)"
  from cleanup_removes [of ?s1 ?name ?pr ?w] obtain w2 where
    cl: "cleanup (?s1, ?w) = (Returned, ?s1, w2)" and em2: "emitted w2 = emitted ?w"
    by auto
  have "on_proc_closed cfg 0 NormalExit (?s1, w1) = finally_cleanup Returned (?s1, ?w)"
    by (simp add: on_proc_closed_def rd)
  also have "\<dots> = (Returned, ?s1, w2)" by (simp add: finally_cleanup_def cl)
  finally have oc: "on_proc_closed cfg 0 NormalExit (?s1, w1) = (Returned, ?s1, w2)" .
  have pe: "process_ended cfg (ExitedNormally 0) (?s1, w1) = (Returned, ?s1, w2)"
    by (simp add: process_ended_def same oc)
  have "emitted w2 = emitted w @ [txt]"
    by (simp add: em2 em1 editing_finished_emit_def syscall_def)
  with ed em1 oc pe
  show "\<exists>s1 w1 w2. edit cfg txt p (s, w) = (Returned, s1, w1) \<and> emitted w1 = emitted w \<and>
            on_proc_closed cfg 0 NormalExit (s1, w1) = (Returned, s1, w2) \<and>
            process_ended cfg (ExitedNormally 0) (s1, w1) = (Returned, s1, w2) \<and>
            emitted w2 = emitted w @ [txt]"
    by blast
next
  show "\<forall>ev s' w'. length (emitted (world_of (process_ended cfg ev (s', w'))))
            \<le> Suc (length (emitted w'))"
    by (simp add: process_ended_emitted_length)
qed

text \<open>
  The instances of C4 at the texts \<open>"hello"\<close> and \<open>""\<close>, with the default command and
  the one-byte codec in the quiet world.
\<close>

theorem edit_round_trip_witness:
  "filename init_editor = None \<and> files quiet_world (tmp_name quiet_world) = None \<and>
   os_fault quiet_world OpMkstemp = None \<and>
   os_fault quiet_world (OpWrite (tmp_name quiet_world)) = None \<and>
   os_fault quiet_world (OpClose (tmp_name quiet_world)) = None \<and>
   os_fault quiet_world (OpRead (tmp_name quiet_world)) = None \<and>
   editor_command default_config \<noteq> [] \<and> CR \<notin> set ''hello'' \<and>
   codec_round_trips (editor_encoding default_config) (os_platform quiet_world) ''hello'' \<and>
   codec_round_trips (editor_encoding default_config) (os_platform quiet_world) [] \<and>
   emitted (world_of (process_ended default_config (ExitedNormally 0)
     (snd (edit default_config ''hello'' 3 (init_editor, quiet_world))))) = [''hello''] \<and>
   emitted (world_of (process_ended default_config (ExitedNormally 0)
     (snd (edit default_config [] 0 (init_editor, quiet_world))))) = [[]]"
proof -
  have h1: "filename init_editor = None" by (simp add: init_editor_def)
  have h2: "files quiet_world (tmp_name quiet_world) = None" by (simp add: quiet_world_def)
  have h3: "os_fault quiet_world OpMkstemp = None" by (simp add: quiet_world_def)
  have h4: "os_fault quiet_world (OpWrite (tmp_name quiet_world)) = None"
    by (simp add: quiet_world_def)
  have h5: "os_fault quiet_world (OpClose (tmp_name quiet_world)) = None"
    by (simp add: quiet_world_def)
  have h6: "os_fault quiet_world (OpRead (tmp_name quiet_world)) = None"
    by (simp add: quiet_world_def)
  have h7: "editor_command default_config \<noteq> []" by (simp add: default_config_def)
  have h8: "CR \<notin> set ''hello''" by simp
  have h8': "CR \<notin> set []" by simp
  have h9: "codec_round_trips (editor_encoding default_config) (os_platform quiet_world) ''hello''"
    by (simp add: codec_round_trips_def default_config_def latin1_def)
  have h9': "codec_round_trips (editor_encoding default_config) (os_platform quiet_world) []"
    by (simp add: codec_round_trips_def default_config_def latin1_def)
  have em: "emitted quiet_world = []" by (simp add: quiet_world_def)
  from edit_round_trip [OF h1 h2 h3 h4 h5 h6 h7 h8 h9, of 3] obtain s1 w1 w2 where
    e: "edit default_config ''hello'' 3 (init_editor, quiet_world) = (Returned, s1, w1)"
    and p: "process_ended default_config (ExitedNormally 0) (s1, w1) = (Returned, s1, w2)"
    and r: "emitted w2 = emitted quiet_world @ [''hello'']"
    by blast
  have a: "emitted (world_of (process_ended default_config (ExitedNormally 0)
     (snd (edit default_config ''hello'' 3 (init_editor, quiet_world))))) = [''hello'']"
    unfolding e by (simp add: p world_of_def r em)
  from edit_round_trip [OF h1 h2 h3 h4 h5 h6 h7 h8' h9', of 0] obtain s1' w1' w2' where
    e': "edit default_config [] 0 (init_editor, quiet_world) = (Returned, s1', w1')"
    and p': "process_ended default_config (ExitedNormally 0) (s1', w1') = (Returned, s1', w2')"
    and r': "emitted w2' = emitted quiet_world @ [[]]"
    by blast
  have b: "emitted (world_of (process_ended default_config (ExitedNormally 0)
     (snd (edit default_config [] 0 (init_editor, quiet_world))))) = [[]]"
    unfolding e' by (simp add: p' world_of_def r' em)
  from h1 h2 h3 h4 h5 h6 h7 h8 h9 h9' a b show ?thesis by (intro conjI)
qed

text \<open>
  C4 as stated fails for a text with a carriage return: the file is read back in text
  mode, which turns \<open>'\r'\<close> into \<open>'\n'\<close>. For the text \<open>"a\rb"\<close> the file holds the three
  characters unchanged and the emitted text is \<open>"a\nb"\<close>.
\<close>

theorem edit_round_trip_counterexample:
  "outcome_of (edit default_config [CHR ''a'', CR, CHR ''b''] 0 (init_editor, quiet_world)) = Returned \<and>
   files (world_of (edit default_config [CHR ''a'', CR, CHR ''b''] 0 (init_editor, quiet_world)))
     ''/tmp/qutebrowser-editor-a1b2c3'' = Some [CHR ''a'', CR, CHR ''b''] \<and>
   outcome_of (process_ended default_config (ExitedNormally 0)
     (snd (edit default_config [CHR ''a'', CR, CHR ''b''] 0 (init_editor, quiet_world)))) = Returned \<and>
   emitted (world_of (process_ended default_config (ExitedNormally 0)
     (snd (edit default_config [CHR ''a'', CR, CHR ''b''] 0 (init_editor, quiet_world))))) =
     [[CHR ''a'', LF, CHR ''b'']] \<and>
   [CHR ''a'', LF, CHR ''b''] \<noteq> [CHR ''a'', CR, CHR ''b'']"
  by (simp add: eval_defs)

subsection \<open>C5: a crash of the editor\<close>

text \<open>
  C5. For every cycle started by \<open>edit\<close> (it returned and started a process), the
  temporary file is on disk when \<open>edit\<close> returns, and when the process crashes the two
  callbacks, alone or in the order of the process wrapper, return and leave the world as
  it is, whatever the world is by then: nothing is emitted and no file is removed.
\<close>

theorem crash_keeps_temp_file:
  assumes "edit cfg txt p (init_editor, w0) = (Returned, s1, w1)" and "proc s1 \<noteq> None"
  shows "filename s1 = Some (tmp_name w0) \<and> files w1 (tmp_name w0) \<noteq> None \<and>
         process_ended cfg (CrashedWith code) (s1, w) =
           (Returned, set_exit_status CrashExit s1, w) \<and>
         on_proc_error err (set_exit_status CrashExit s1, w) =
           (Returned, set_exit_status CrashExit s1, w) \<and>
         on_proc_closed cfg code CrashExit (set_exit_status CrashExit s1, w) =
           (Returned, set_exit_status CrashExit s1, w)"
proof -
  from started_shape [OF assms] obtain pr where
    f: "filename s1 = Some (tmp_name w0)" and r: "remove_file s1 = Some True"
    and p: "proc s1 = Some pr" and d: "files w1 (tmp_name w0) \<noteq> None"
    by auto
  from f d crash_callbacks [OF r p] show ?thesis by simp
qed

text \<open>
  The instance of C5 at the cycle started on the text \<open>"draft"\<close> in the quiet world:
  after a crash with exit code 11 the temporary file still holds the text and nothing
  was emitted.
\<close>

theorem crash_keeps_temp_file_witness:
  "outcome_of busy_run = Returned \<and> proc (editor_of busy_run) \<noteq> None \<and>
   outcome_of (process_ended default_config (CrashedWith 11) (editor_of busy_run, world_of busy_run))
     = Returned \<and>
   files (world_of (process_ended default_config (CrashedWith 11)
     (editor_of busy_run, world_of busy_run))) ''/tmp/qutebrowser-editor-a1b2c3'' = Some ''draft'' \<and>
   emitted (world_of (process_ended default_config (CrashedWith 11)
     (editor_of busy_run, world_of busy_run))) = []"
proof -
  have run: "edit default_config ''draft'' 0 (init_editor, quiet_world) =
      (Returned, editor_of busy_run, world_of busy_run)"
    by (simp add: busy_run_def eval_defs)
  have pr: "proc (editor_of busy_run) \<noteq> None"
    by (simp add: busy_run_def eval_defs)
  have out: "outcome_of busy_run = Returned"
    by (simp add: busy_run_def eval_defs)
  have disk: "files (world_of busy_run) ''/tmp/qutebrowser-editor-a1b2c3'' = Some ''draft''"
    and em: "emitted (world_of busy_run) = []"
    by (simp_all add: busy_run_def eval_defs)
  from crash_keeps_temp_file [OF run pr, of 11 "world_of busy_run"]
  have "process_ended default_config (CrashedWith 11) (editor_of busy_run, world_of busy_run) =
      (Returned, set_exit_status CrashExit (editor_of busy_run), world_of busy_run)"
    by simp
  with pr out disk em show ?thesis by (simp add: outcome_of_def world_of_def)
qed

subsection \<open>C6: a normal exit with a non-zero code\<close>

text \<open>
  C6. For every cycle started by \<open>edit\<close>, when the process exits normally with a code
  other than zero, the completion callback returns, emits nothing, and its only file
  operation is the removal of the temporary file (so the file is not read back); the
  file is gone afterwards unless the operating system refuses the removal, and no other
  file changes.
\<close>

theorem nonzero_exit_removes_temp_file:
  assumes "edit cfg txt p (init_editor, w0) = (Returned, s1, w1)" and "proc s1 \<noteq> None"
    and "code \<noteq> 0"
  shows "\<exists>w2. on_proc_closed cfg code NormalExit (s1, w) = (Returned, s1, w2) \<and>
           process_ended cfg (ExitedNormally code) (s1, w) = (Returned, s1, w2) \<and>
           emitted w2 = emitted w \<and>
           fs_trace w2 = fs_trace w @ [OpRemove (tmp_name w0)] \<and>
           (os_fault w (OpRemove (tmp_name w0)) = None \<longrightarrow> files w2 (tmp_name w0) = None) \<and>
           (\<forall>other. other \<noteq> tmp_name w0 \<longrightarrow> files w2 other = files w other)"
proof -
  from started_shape [OF assms(1,2)] obtain pr where
    f: "filename s1 = Some (tmp_name w0)" and r: "remove_file s1 = Some True"
    and p: "proc s1 = Some pr" and n: "exit_status pr = NormalExit"
    by auto
  from cleanup_removes [OF r f p n, of w] obtain w2 where
    all: "cleanup (s1, w) = (Returned, s1, w2) \<and>
           fs_trace w2 = fs_trace w @ [OpRemove (tmp_name w0)] \<and>
           emitted w2 = emitted w \<and>
           (os_fault w (OpRemove (tmp_name w0)) = None \<longrightarrow> files w2 (tmp_name w0) = None) \<and>
           (\<forall>other. other \<noteq> tmp_name w0 \<longrightarrow> files w2 other = files w other)" ..
  then have c: "cleanup (s1, w) = (Returned, s1, w2)" by (rule conjunct1)
  have same: "set_exit_status NormalExit s1 = s1" using p n by (rule set_exit_status_same)
  have "on_proc_closed cfg code NormalExit (s1, w) = finally_cleanup Returned (s1, w)"
    using assms(3) by (simp add: on_proc_closed_def)
  also have "\<dots> = (Returned, s1, w2)" by (simp add: finally_cleanup_def c)
  finally have oc: "on_proc_closed cfg code NormalExit (s1, w) = (Returned, s1, w2)" .
  have pe: "process_ended cfg (ExitedNormally code) (s1, w) = (Returned, s1, w2)"
    by (simp add: process_ended_def same oc)
  show ?thesis
    apply (rule exI [of _ w2])
    using oc pe all apply simp
    done
qed

text \<open>
  The instance of C6 at the cycle started on the text \<open>"draft"\<close> in the quiet world and
  the exit code 1.
\<close>

theorem nonzero_exit_removes_temp_file_witness:
  "outcome_of busy_run = Returned \<and> proc (editor_of busy_run) \<noteq> None \<and> (1::int) \<noteq> 0 \<and>
   os_fault (world_of busy_run) (OpRemove (tmp_name quiet_world)) = None \<and>
   files (world_of busy_run) (tmp_name quiet_world) = Some ''draft'' \<and>
   outcome_of (process_ended default_config (ExitedNormally 1) (editor_of busy_run, world_of busy_run))
     = Returned \<and>
   files (world_of (process_ended default_config (ExitedNormally 1)
     (editor_of busy_run, world_of busy_run))) (tmp_name quiet_world) = None \<and>
   emitted (world_of (process_ended default_config (ExitedNormally 1)
     (editor_of busy_run, world_of busy_run))) = [] \<and>
   fs_trace (world_of (process_ended default_config (ExitedNormally 1)
     (editor_of busy_run, world_of busy_run))) =
     [OpMkstemp, OpWrite (tmp_name quiet_world), OpClose (tmp_name quiet_world),
      OpRemove (tmp_name quiet_world)]"
proof -
  let ?pe = "process_ended default_config (ExitedNormally 1) (editor_of busy_run, world_of busy_run)"
  have run: "edit default_config ''draft'' 0 (init_editor, quiet_world) =
      (Returned, editor_of busy_run, world_of busy_run)"
    by (simp add: busy_run_def eval_defs)
  have pr: "proc (editor_of busy_run) \<noteq> None"
    by (simp add: busy_run_def eval_defs)
  have out: "outcome_of busy_run = Returned"
    by (simp add: busy_run_def eval_defs)
  have nofault: "os_fault (world_of busy_run) (OpRemove (tmp_name quiet_world)) = None"
    and disk: "files (world_of busy_run) (tmp_name quiet_world) = Some ''draft''"
    and em: "emitted (world_of busy_run) = []"
    and tr: "fs_trace (world_of busy_run) =
       [OpMkstemp, OpWrite (tmp_name quiet_world), OpClose (tmp_name quiet_world)]"
    by (simp_all add: busy_run_def eval_defs)
  have one: "(1::int) \<noteq> 0" by simp
  from nonzero_exit_removes_temp_file [OF run pr one, of "world_of busy_run"]
  obtain w2 where all:
    "on_proc_closed default_config 1 NormalExit (editor_of busy_run, world_of busy_run) =
       (Returned, editor_of busy_run, w2) \<and>
     ?pe = (Returned, editor_of busy_run, w2) \<and>
     emitted w2 = emitted (world_of busy_run) \<and>
     fs_trace w2 = fs_trace (world_of busy_run) @ [OpRemove (tmp_name quiet_world)] \<and>
     (os_fault (world_of busy_run) (OpRemove (tmp_name quiet_world)) = None \<longrightarrow>
        files w2 (tmp_name quiet_world) = None) \<and>
     (\<forall>other. other \<noteq> tmp_name quiet_world \<longrightarrow> files w2 other = files (world_of busy_run) other)" ..
  then have pe: "?pe = (Returned, editor_of busy_run, w2)" by (rule conjunct1 [OF conjunct2])
  from all have e2: "emitted w2 = []" by (simp add: em)
  from all have t2: "fs_trace w2 = [OpMkstemp, OpWrite (tmp_name quiet_world),
      OpClose (tmp_name quiet_world), OpRemove (tmp_name quiet_world)]" by (simp add: tr)
  from all nofault have f2: "files w2 (tmp_name quiet_world) = None" by simp
  have o2: "outcome_of ?pe = Returned" unfolding pe by (simp add: outcome_of_def)
  have w2: "world_of ?pe = w2" unfolding pe by (simp add: world_of_def)
  show ?thesis
    unfolding w2 using out pr one nofault disk o2 f2 e2 t2 by (intro conjI)
qed

subsection \<open>C7: the temporary file cannot be created or written\<close>

text \<open>
  C7 says that when the initial file cannot be created or written, \<open>edit\<close> shows the
  error, starts no process and leaves no partial state: \<open>_filename\<close> unset, no
  temporary file left. Evaluated with a full disk on the text \<open>"draft"\<close>: the text
  stays in the buffer of the file, the name is stored in \<open>_filename\<close>, and the refused
  write comes with the close on leaving the \<open>with\<close> block. \<open>edit\<close> shows the error
  and starts no process, but \<open>_filename\<close> is set, \<open>_remove_file\<close> is not, the empty
  temporary file is on disk, and a second \<open>edit\<close> raises \<open>ValueError\<close> even when the
  disk has room again. Where the file cannot be created at all, the instance is the
  initial one and no file appears.
\<close>

theorem edit_failed_write_leaves_filename:
  "files full_disk_world ''/tmp/qutebrowser-editor-a1b2c3'' = None \<and>
   outcome_of failed_write_run = Returned \<and>
   messages (world_of failed_write_run) =
     [''Failed to create initial file: No space left on device''] \<and>
   proc (editor_of failed_write_run) = None \<and>
   remove_file (editor_of failed_write_run) = None \<and>
   filename (editor_of failed_write_run) = Some ''/tmp/qutebrowser-editor-a1b2c3'' \<and>
   files (world_of failed_write_run) ''/tmp/qutebrowser-editor-a1b2c3'' = Some [] \<and>
   outcome_of (edit default_config ''draft'' 0 (editor_of failed_write_run, quiet_world)) =
     Raised (ValueError ''Already editing a file!'') \<and>
   outcome_of failed_creation_run = Returned \<and>
   messages (world_of failed_creation_run) =
     [''Failed to create initial file: No such file or directory''] \<and>
   editor_of failed_creation_run = init_editor \<and>
   files (world_of failed_creation_run) ''/tmp/qutebrowser-editor-a1b2c3'' = None"
  by (simp add: failed_write_run_def failed_creation_run_def eval_defs full_disk_world_def
      no_tmp_world_def)

subsection \<open>C8: cleanup with nothing to clean\<close>


subsection \<open>C9: a file given to \<open>edit_file\<close> is never removed\<close>

text \<open>
  C9. For every file name given to \<open>edit_file\<close>, from every state: \<open>edit_file\<close> sets
  \<open>_remove_file\<close> to false and touches no file; whatever the way the process ends (normal
  exit with any code, crash, start error) and whatever the world is by then,
  \<open>_remove_file\<close> is still false afterwards, the files on disk are the same and no
  removal was attempted.
\<close>

theorem edit_file_never_removes:
  "remove_file (editor_of (edit_file cfg fname (s, w))) = Some False \<and>
   files (world_of (edit_file cfg fname (s, w))) = files w \<and>
   removals (world_of (edit_file cfg fname (s, w))) = removals w \<and>
   remove_file (editor_of (process_ended cfg ev (editor_of (edit_file cfg fname (s, w)), w'))) =
     Some False \<and>
   files (world_of (process_ended cfg ev (editor_of (edit_file cfg fname (s, w)), w'))) =
     files w' \<and>
   removals (world_of (process_ended cfg ev (editor_of (edit_file cfg fname (s, w)), w'))) =
     removals w'"
proof -
  let ?s1 = "editor_of (edit_file cfg fname (s, w))"
  have rf: "remove_file ?s1 = Some False" and wo: "world_of (edit_file cfg fname (s, w)) = w"
    using edit_file_fields [of cfg fname s w] by simp_all
  have "remove_file (editor_of (process_ended cfg ev (?s1, w'))) = Some False"
    by (simp add: process_ended_editor set_exit_status_fields rf)
  with rf wo process_ended_not_owned [OF rf, of cfg ev w'] show ?thesis by simp
qed

end
